theory Spec2Isabelle
  imports Main
begin

section \<open>Data model\<close>

text \<open>
  The handlers of \<^verbatim>\<open>controllers/postControllers.js\<close> and of the user controller work on
  two document collections (\<^verbatim>\<open>User\<close>, \<^verbatim>\<open>Post\<close>) and on the \<^verbatim>\<open>uploads\<close> directory.
  Store identifiers are strings (the hexadecimal rendering that \<^verbatim>\<open>req.user.id\<close> and
  \<^verbatim>\<open>req.params.id\<close> carry). A string is the list of its characters, and its \<open>length\<close>
  is their number.
\<close>

type_synonym oid = string

text \<open>
  Modelled from the spec: the schema files \<^verbatim>\<open>models/userModel.js\<close> and
  \<^verbatim>\<open>models/postModel.js\<close> are not part of the sources; the fields are those of the data
  model (User: name, email, password, avatar, posts counter; Post: title, category,
  description, thumbnail, creator, timestamps) and those the handlers read and write.
\<close>

record user_doc =
  user_id :: oid
  name :: string
  email :: string
  password :: string
  avatar :: "string option"
  posts :: int

record post_doc =
  post_id :: oid
  title :: string
  category :: string
  description :: string
  thumbnail :: string
  creator :: oid
  createdAt :: nat
  updatedAt :: nat

text \<open>
  Modelled from the spec: \<^verbatim>\<open>models/errorModel.js\<close> is not part of the sources. An error is
  the structured object \<open>{message, status}\<close>; \<^verbatim>\<open>new HttpError(m, c)\<close> stores both, and
  \<^verbatim>\<open>new HttpError(m)\<close> leaves the status undefined (\<open>None\<close>).
\<close>

datatype http_error = HttpError (message: string) (status: "nat option")

text \<open>What \<^verbatim>\<open>res.status(n).json(v)\<close> sends.\<close>

datatype json =
    JString string
  | JPost post_doc
  | JPosts "(post_doc \<times> (string \<times> string option) option) list"
  | JAvatar oid "string option"
  | JLogin string oid string string

datatype response = Response (res_status: nat) (res_body: json)

type_synonym outcome = "http_error + response"

text \<open>An uploaded file as \<^verbatim>\<open>express-fileupload\<close> presents it (\<^verbatim>\<open>name\<close>, \<^verbatim>\<open>size\<close>).\<close>

record upload =
  file_name :: string
  file_size :: nat

text \<open>The identity that the authorization middleware attaches as \<^verbatim>\<open>req.user\<close>.\<close>

record identity =
  uid :: oid
  uname :: string

record request =
  body :: "string \<rightharpoonup> string"
  params :: "string \<rightharpoonup> string"
  files :: "(string \<rightharpoonup> upload) option"
  user :: identity

text \<open>
  Side effects that a handler performs, in the order in which it performs them.
  \<open>LateNext\<close> is a call of \<^verbatim>\<open>next(err)\<close> made from a callback that the handler does not
  wait for; \<open>ConsoleLog\<close> is an error that such a callback only prints.
\<close>

datatype effect =
    FileUnlinked string
  | FileMoved string
  | UserCreated oid
  | UserUpdated oid
  | PostCreated oid
  | PostUpdated oid
  | PostDeleted oid
  | LateNext http_error
  | ConsoleLog string

text \<open>
  The state: the two collections, the uploads directory and the effects so far. Of the
  directory the model has the names of its files (\<open>uploads\<close>), the names that the
  operating system refuses to unlink (\<open>locked\<close>), and the text \<^verbatim>\<open>String(err)\<close> of the
  error with which \<^verbatim>\<open>fs.unlink\<close> of a name fails (\<open>unlink_err\<close>); that text names the
  absolute path and depends on the platform.
\<close>

record world =
  userColl :: "user_doc list"
  postColl :: "post_doc list"
  uploads :: "string set"
  locked :: "string set"
  unlink_err :: "string \<Rightarrow> string"
  trace :: "effect list"

text \<open>
  What a request gets from outside the handler: the value of \<^verbatim>\<open>uuid()\<close>, the identifier
  and the time stamp that the store assigns to a created or updated document, the error
  (if any) with which moving the uploaded file ends, and the salt of \<^verbatim>\<open>bcrypt.genSalt\<close>.
\<close>

record env =
  uuid :: string
  new_id :: oid
  now :: nat
  mv_err :: "string option"
  salt :: string

text \<open>
  The functions from outside that the handlers call: those of \<^verbatim>\<open>bcryptjs\<close> and
  \<^verbatim>\<open>jsonwebtoken\<close>, and the string methods \<^verbatim>\<open>toLowerCase\<close> and \<^verbatim>\<open>trim\<close> of the
  runtime, which follow the Unicode tables. The handlers are modelled for any such
  functions.
\<close>

record lib =
  bcrypt_hash :: "string \<Rightarrow> string \<Rightarrow> string"
  bcrypt_compare :: "string \<Rightarrow> string \<Rightarrow> bool"
  jwt_sign :: "oid \<Rightarrow> string \<Rightarrow> string"
  toLowerCase :: "string \<Rightarrow> string"
  trim :: "string \<Rightarrow> string"

section \<open>Strings\<close>

text \<open>The lower-case form of an ASCII letter; other characters are left as they are.\<close>

definition lower_char :: "char \<Rightarrow> char" where
  "lower_char c =
     (case map_of (zip ''ABCDEFGHIJKLMNOPQRSTUVWXYZ'' ''abcdefghijklmnopqrstuvwxyz'') c of
        Some d \<Rightarrow> d
      | None \<Rightarrow> c)"

text \<open>
  What \<^verbatim>\<open>toLowerCase\<close> and \<^verbatim>\<open>trim\<close> do on a string of ASCII characters; the example
  library below uses them, on such strings only.
\<close>

definition ascii_toLowerCase :: "string \<Rightarrow> string" where
  "ascii_toLowerCase s = map lower_char s"

definition is_space :: "char \<Rightarrow> bool" where
  "is_space c = (c \<in> set [CHR '' '', CHR 0x09, CHR 0x0A, CHR 0x0B, CHR 0x0C, CHR 0x0D])"

definition ascii_trim :: "string \<Rightarrow> string" where
  "ascii_trim s = rev (dropWhile is_space (rev (dropWhile is_space s)))"

text \<open>\<^verbatim>\<open>s.split(c)\<close>: the pieces of \<open>s\<close> between the occurrences of \<open>c\<close>; never empty.\<close>

fun split :: "char \<Rightarrow> string \<Rightarrow> string list" where
  "split c [] = [] # []"
| "split c (x # xs) =
     (if x = c then [] # split c xs
      else (case split c xs of
              [] \<Rightarrow> [x] # []
            | y # ys \<Rightarrow> (x # y) # ys))"

text \<open>JavaScript truthiness of a request field: neither undefined nor the empty string.\<close>

definition truthy :: "string option \<Rightarrow> bool" where
  "truthy v = (case v of None \<Rightarrow> False | Some s \<Rightarrow> s \<noteq> [])"

text \<open>
  The message of an error object that the \<^verbatim>\<open>catch\<close> block of a handler wraps when a
  property of \<^verbatim>\<open>undefined\<close> or \<^verbatim>\<open>null\<close> is read.
\<close>

definition TypeError :: "string \<Rightarrow> string" where
  "TypeError prop = ''TypeError: Cannot read properties of undefined (reading '' @ prop @ '')''"

section \<open>Numbers\<close>

text \<open>
  The posts counter is a number of the runtime: a double. The model has the counters of
  integer value and of magnitude below \<open>2 ^ 1024\<close>. \<open>to_double\<close> rounds an integer to the
  nearest double (ties to the even significand of 53 bits), and \<open>js_add\<close> is the addition
  of the runtime on them: the exact sum, rounded. Up to \<open>2 ^ 53\<close> every integer is a double.
\<close>

fun bit_length :: "nat \<Rightarrow> nat" where
  "bit_length n = (if n = 0 then 0 else Suc (bit_length (n div 2)))"

definition to_double :: "int \<Rightarrow> int" where
  "to_double x =
     (let a = nat \<bar>x\<bar>; n = bit_length a
      in if n \<le> 53 then x
         else
           let q = 2 ^ (n - 53);
               m = a div q;
               r = a mod q;
               m' = (if q < 2 * r \<or> (2 * r = q \<and> odd m) then m + 1 else m)
           in sgn x * int (m' * q))"

definition js_add :: "int \<Rightarrow> int \<Rightarrow> int" where
  "js_add a b = to_double (to_double a + to_double b)"

section \<open>The document store and the uploads directory\<close>

text \<open>
  A collection is the list of its documents in the order of their creation; a lookup
  returns the first document that fits. The operations of the store always answer; the
  operations on files can end with an error, which the handlers receive in a callback.
\<close>

definition User_findOne_email :: "string \<Rightarrow> world \<Rightarrow> user_doc option" where
  "User_findOne_email e w = find (\<lambda>u. email u = e) (userColl w)"

definition User_findById :: "oid \<Rightarrow> world \<Rightarrow> user_doc option" where
  "User_findById i w = find (\<lambda>u. user_id u = i) (userColl w)"

definition User_create :: "user_doc \<Rightarrow> world \<Rightarrow> world" where
  "User_create d w =
     w\<lparr>userColl := userColl w @ [d], trace := trace w @ [UserCreated (user_id d)]\<rparr>"

text \<open>Replaces the first element that satisfies \<open>P\<close>, as an update by identifier does.\<close>

fun update_first :: "('a \<Rightarrow> bool) \<Rightarrow> ('a \<Rightarrow> 'a) \<Rightarrow> 'a list \<Rightarrow> 'a list" where
  "update_first P f [] = []"
| "update_first P f (x # xs) = (if P x then f x # xs else x # update_first P f xs)"

fun remove_first :: "('a \<Rightarrow> bool) \<Rightarrow> 'a list \<Rightarrow> 'a list" where
  "remove_first P [] = []"
| "remove_first P (x # xs) = (if P x then xs else x # remove_first P xs)"

text \<open>\<^verbatim>\<open>findByIdAndUpdate(id, changes, {new: true})\<close>: the updated document, or null.\<close>

definition User_findByIdAndUpdate ::
  "oid \<Rightarrow> (user_doc \<Rightarrow> user_doc) \<Rightarrow> world \<Rightarrow> world \<times> user_doc option" where
  "User_findByIdAndUpdate i f w =
     (case User_findById i w of
        None \<Rightarrow> (w, None)
      | Some u \<Rightarrow>
          (w\<lparr>userColl := update_first (\<lambda>u. user_id u = i) f (userColl w),
             trace := trace w @ [UserUpdated i]\<rparr>,
           Some (f u)))"

definition Post_findById :: "oid \<Rightarrow> world \<Rightarrow> post_doc option" where
  "Post_findById i w = find (\<lambda>p. post_id p = i) (postColl w)"

definition Post_create :: "post_doc \<Rightarrow> world \<Rightarrow> world" where
  "Post_create d w =
     w\<lparr>postColl := postColl w @ [d], trace := trace w @ [PostCreated (post_id d)]\<rparr>"

definition Post_findByIdAndUpdate ::
  "oid \<Rightarrow> (post_doc \<Rightarrow> post_doc) \<Rightarrow> world \<Rightarrow> world \<times> post_doc option" where
  "Post_findByIdAndUpdate i f w =
     (case Post_findById i w of
        None \<Rightarrow> (w, None)
      | Some p \<Rightarrow>
          (w\<lparr>postColl := update_first (\<lambda>p. post_id p = i) f (postColl w),
             trace := trace w @ [PostUpdated i]\<rparr>,
           Some (f p)))"

definition Post_findByIdAndDelete :: "oid \<Rightarrow> world \<Rightarrow> world" where
  "Post_findByIdAndDelete i w =
     (case Post_findById i w of
        None \<Rightarrow> w
      | Some p \<Rightarrow>
          w\<lparr>postColl := remove_first (\<lambda>p. post_id p = i) (postColl w),
            trace := trace w @ [PostDeleted i]\<rparr>)"

text \<open>
  \<^verbatim>\<open>fs.unlink\<close> on a name in the uploads directory: the file is removed, or the callback
  gets an error, because there is no such file or because the operating system refuses.
  The result carries the text of the error, as \<^verbatim>\<open>new HttpError(err)\<close> stores it.
\<close>

definition fs_unlink :: "string \<Rightarrow> world \<Rightarrow> world \<times> string option" where
  "fs_unlink f w =
     (if f \<in> uploads w \<and> f \<notin> locked w
      then (w\<lparr>uploads := uploads w - {f}, trace := trace w @ [FileUnlinked f]\<rparr>, None)
      else (w, Some (unlink_err w f)))"

text \<open>\<^verbatim>\<open>file.mv(path, callback)\<close>: the file is stored, or the callback gets an error.\<close>

definition file_mv :: "env \<Rightarrow> string \<Rightarrow> world \<Rightarrow> world \<times> string option" where
  "file_mv ev f w =
     (case mv_err ev of
        Some e \<Rightarrow> (w, Some e)
      | None \<Rightarrow> (w\<lparr>uploads := insert f (uploads w), trace := trace w @ [FileMoved f]\<rparr>, None))"

section \<open>User handlers\<close>

definition registerUser :: "lib \<Rightarrow> env \<Rightarrow> request \<Rightarrow> world \<Rightarrow> world \<times> outcome" where
  "registerUser lb ev req w =
     (if \<not> truthy (body req ''fullname'') \<or> \<not> truthy (body req ''email'')
         \<or> \<not> truthy (body req ''password'')
      then (w, Inl (HttpError ''Fill in all fields.'' (Some 422)))
      else
        let newEmail = toLowerCase lb (the (body req ''email''));
            emailExists = User_findOne_email newEmail w
        in if emailExists \<noteq> None
           then (w, Inl (HttpError ''Email already exists.'' (Some 422)))
           else if length (trim lb (the (body req ''password''))) < 6
           then (w, Inl (HttpError ''Password must be at least 6 characters.'' (Some 422)))
           else
             let hashedPassword = bcrypt_hash lb (the (body req ''password'')) (salt ev);
                 newUser = \<lparr>user_id = new_id ev, name = the (body req ''fullname''),
                            email = newEmail, password = hashedPassword,
                            avatar = None, posts = 0\<rparr>
             in (User_create newUser w,
                 Inr (Response 201
                        (JString (''New User '' @ email newUser @ '' registered.'')))))"

text \<open>
  In the message for a wrong password the source has a typographic apostrophe; it is
  written as an ASCII apostrophe here.
\<close>

definition loginUser :: "lib \<Rightarrow> request \<Rightarrow> world \<Rightarrow> world \<times> outcome" where
  "loginUser lb req w =
     (if \<not> truthy (body req ''email'') \<or> \<not> truthy (body req ''password'')
      then (w, Inl (HttpError ''Fill all the fields.'' (Some 422)))
      else
        let newEmail = toLowerCase lb (the (body req ''email''))
        in case User_findOne_email newEmail w of
             None \<Rightarrow>
               (w, Inl (HttpError
                          ''We couldn't find an account linked to this email address.''
                          (Some 422)))
           | Some u \<Rightarrow>
               if \<not> bcrypt_compare lb (the (body req ''password'')) (password u)
               then (w, Inl (HttpError ''The password you've entered is incorrect.''
                               (Some 401)))
               else
                 let token = jwt_sign lb (user_id u) (name u)
                 in (w, Inr (Response 200
                               (JLogin token (user_id u) (name u) newEmail))))"

text \<open>
  \<^verbatim>\<open>fs.unlink(path, callback)\<close> with a callback that passes an error to \<^verbatim>\<open>next\<close>
  (\<open>unlink_next\<close>) or only prints it (\<open>unlink_log\<close>); the handler goes on without waiting
  for the callback.
\<close>

definition unlink_next :: "string \<Rightarrow> world \<Rightarrow> world" where
  "unlink_next f w =
     (case fs_unlink f w of
        (w', None) \<Rightarrow> w'
      | (w', Some err) \<Rightarrow> w'\<lparr>trace := trace w' @ [LateNext (HttpError err None)]\<rparr>)"

definition unlink_log :: "string \<Rightarrow> world \<Rightarrow> world" where
  "unlink_log f w =
     (case fs_unlink f w of
        (w', None) \<Rightarrow> w'
      | (w', Some err) \<Rightarrow> w'\<lparr>trace := trace w' @ [ConsoleLog err]\<rparr>)"

definition mv_next :: "env \<Rightarrow> string \<Rightarrow> world \<Rightarrow> world" where
  "mv_next ev f w =
     (case file_mv ev f w of
        (w', None) \<Rightarrow> w'
      | (w', Some err) \<Rightarrow> w'\<lparr>trace := trace w' @ [LateNext (HttpError err None)]\<rparr>)"

text \<open>
  In \<open>changeAvatar\<close> the status 422 of the size check is the second argument of
  \<^verbatim>\<open>next\<close>, not of \<^verbatim>\<open>new HttpError\<close>: the error object is built from the message alone.
\<close>

definition changeAvatar :: "env \<Rightarrow> request \<Rightarrow> world \<Rightarrow> world \<times> outcome" where
  "changeAvatar ev req w =
     (case files req of
        None \<Rightarrow> (w, Inl (HttpError (TypeError ''avatar'') None))
      | Some fs \<Rightarrow>
          (case fs ''avatar'' of
             None \<Rightarrow> (w, Inl (HttpError ''Please choose an image.'' (Some 422)))
           | Some av \<Rightarrow>
               (case User_findById (uid (user req)) w of
                  None \<Rightarrow> (w, Inl (HttpError (TypeError ''avatar'') None))
                | Some u \<Rightarrow>
                    let w1 = (if truthy (avatar u) then unlink_next (the (avatar u)) w else w)
                    in if file_size av > 500000
                       then (w1, Inl (HttpError
                                        ''Profile picture too big. Should be less than 500kb''
                                        None))
                       else
                         let fileExtension = last (split (CHR ''.'') (file_name av));
                             newFilename = uuid ev @ ''.'' @ fileExtension
                         in case file_mv ev newFilename w1 of
                              (w2, Some err) \<Rightarrow> (w2, Inl (HttpError err None))
                            | (w2, None) \<Rightarrow>
                                (case User_findByIdAndUpdate (uid (user req))
                                        (\<lambda>d. d\<lparr>avatar := Some newFilename\<rparr>) w2 of
                                   (w3, None) \<Rightarrow>
                                     (w3, Inl (HttpError ''Avatar couldn't be changed.''
                                                 (Some 422)))
                                 | (w3, Some d) \<Rightarrow>
                                     (w3, Inr (Response 200
                                                 (JAvatar (user_id d) (avatar d))))))))"

section \<open>Post handlers\<close>

definition isValidCategory :: "string \<Rightarrow> bool" where
  "isValidCategory c =
     (c \<in> set [''Agriculture'', ''Business'', ''Education'', ''Entertainment'', ''Art'',
               ''Investment'', ''Uncategorized'', ''Weather''])"

text \<open>
  \<^verbatim>\<open>currentUser?.posts + 1\<close> followed by \<^verbatim>\<open>User.findByIdAndUpdate\<close>: the counter that was
  read is written back with \<open>k\<close> added by the runtime; without a user document there is
  nothing to update.
\<close>

definition bump_posts :: "oid \<Rightarrow> int \<Rightarrow> world \<Rightarrow> world" where
  "bump_posts i k w =
     (case User_findById i w of
        None \<Rightarrow> w
      | Some currentUser \<Rightarrow>
          fst (User_findByIdAndUpdate i (\<lambda>d. d\<lparr>posts := js_add (posts currentUser) k\<rparr>) w))"

text \<open>
  \<open>createPost\<close>: everything after the size check runs in the callback of
  \<^verbatim>\<open>thumbnail.mv\<close>. \<^verbatim>\<open>Post.create\<close> returns the created document, so the branch for a
  missing \<^verbatim>\<open>newPost\<close> is never taken.
\<close>

definition createPost :: "env \<Rightarrow> request \<Rightarrow> world \<Rightarrow> world \<times> outcome" where
  "createPost ev req w =
     (if \<not> truthy (body req ''title'') \<or> \<not> truthy (body req ''category'')
         \<or> \<not> truthy (body req ''description'') \<or> files req = None
      then (w, Inl (HttpError ''Fill in all fields and choose thumbnail.'' (Some 422)))
      else if \<not> isValidCategory (the (body req ''category''))
      then (w, Inl (HttpError ''Invalid category.'' (Some 422)))
      else
        case the (files req) ''thumbnail'' of
          None \<Rightarrow> (w, Inl (HttpError (TypeError ''size'') None))
        | Some th \<Rightarrow>
            if file_size th > 2000000
            then (w, Inl (HttpError ''Thumbnail too big. File should be less than 2mb.''
                            (Some 422)))
            else
              let fileExtension = last (split (CHR ''.'') (file_name th));
                  newFilename = uuid ev @ ''.'' @ fileExtension
              in case file_mv ev newFilename w of
                   (w1, Some err) \<Rightarrow> (w1, Inl (HttpError err None))
                 | (w1, None) \<Rightarrow>
                     let newPost = \<lparr>post_id = new_id ev,
                                    title = the (body req ''title''),
                                    category = the (body req ''category''),
                                    description = the (body req ''description''),
                                    thumbnail = newFilename,
                                    creator = uid (user req),
                                    createdAt = now ev, updatedAt = now ev\<rparr>;
                         w2 = Post_create newPost w1;
                         w3 = bump_posts (uid (user req)) 1 w2
                     in (w3, Inr (Response 200 (JPost newPost))))"

text \<open>The common end of \<open>editPost\<close>: \<^verbatim>\<open>if (!updatedPost) ... 400\<close>, else the post.\<close>

definition edit_result :: "world \<times> post_doc option \<Rightarrow> world \<times> outcome" where
  "edit_result r =
     (case r of
        (w, None) \<Rightarrow> (w, Inl (HttpError ''Couldn't update post.'' (Some 400)))
      | (w, Some updatedPost) \<Rightarrow> (w, Inr (Response 200 (JPost updatedPost))))"

text \<open>
  \<open>editPost\<close>. \<^verbatim>\<open>Post.findById(undefined)\<close> finds no document. With a replacement file
  the old thumbnail is unlinked first (errors are only printed), then the size of the new
  file is checked, the file is moved (the handler does not wait for it) and the document
  is updated.
\<close>

definition editPost :: "env \<Rightarrow> request \<Rightarrow> world \<Rightarrow> world \<times> outcome" where
  "editPost ev req w =
     (if \<not> truthy (body req ''title'') \<or> \<not> truthy (body req ''category'')
      then (w, Inl (HttpError ''Fill in all fields.'' (Some 422)))
      else
        case body req ''description'' of
          None \<Rightarrow> (w, Inl (HttpError (TypeError ''length'') None))
        | Some description' \<Rightarrow>
            if length description' < 12
            then (w, Inl (HttpError ''Fill in all fields.'' (Some 422)))
            else if \<not> isValidCategory (the (body req ''category''))
            then (w, Inl (HttpError ''Invalid category.'' (Some 422)))
            else
              case (case params req ''id'' of
                      None \<Rightarrow> None
                    | Some postId \<Rightarrow> map_option (Pair postId) (Post_findById postId w)) of
                None \<Rightarrow> (w, Inl (HttpError ''Post not found.'' (Some 404)))
              | Some (postId, oldPost) \<Rightarrow>
                  if uid (user req) = creator oldPost
                  then
                    (case files req of
                       None \<Rightarrow>
                         edit_result
                           (Post_findByIdAndUpdate postId
                              (\<lambda>p. p\<lparr>title := the (body req ''title''),
                                     category := the (body req ''category''),
                                     description := description',
                                     updatedAt := now ev\<rparr>) w)
                     | Some fs \<Rightarrow>
                         let w1 = unlink_log (thumbnail oldPost) w
                         in case fs ''thumbnail'' of
                              None \<Rightarrow> (w1, Inl (HttpError (TypeError ''size'') None))
                            | Some th \<Rightarrow>
                                if file_size th > 2000000
                                then (w1, Inl (HttpError
                                                 ''Thumbnail too big. Should be less than 2mb.''
                                                 None))
                                else
                                  let splittedFilename = split (CHR ''.'') (file_name th);
                                      newFilename = hd splittedFilename @ uuid ev @ ''.''
                                                    @ last splittedFilename;
                                      w2 = mv_next ev newFilename w1
                                  in edit_result
                                       (Post_findByIdAndUpdate postId
                                          (\<lambda>p. p\<lparr>title := the (body req ''title''),
                                                 category := the (body req ''category''),
                                                 description := description',
                                                 thumbnail := newFilename,
                                                 updatedAt := now ev\<rparr>) w2))
                  else edit_result (w, None))"

text \<open>
  \<open>deletePost\<close>: for the owner, everything after \<^verbatim>\<open>fs.unlink\<close> runs in its callback, and
  only when the unlink did not fail.
\<close>

definition deletePost :: "request \<Rightarrow> world \<Rightarrow> world \<times> outcome" where
  "deletePost req w =
     (case (case params req ''id'' of
              None \<Rightarrow> None
            | Some postId \<Rightarrow> map_option (Pair postId) (Post_findById postId w)) of
        None \<Rightarrow> (w, Inl (HttpError ''Post unavailable'' (Some 404)))
      | Some (postId, post) \<Rightarrow>
          if creator post = uid (user req)
          then
            (case fs_unlink (thumbnail post) w of
               (w1, Some err) \<Rightarrow> (w1, Inl (HttpError err None))
             | (w1, None) \<Rightarrow>
                 let w2 = Post_findByIdAndDelete postId w1;
                     w3 = bump_posts (uid (user req)) (- 1) w2
                 in (w3, Inr (Response 200
                               (JString (''Post '' @ postId @ '' deleted successfully'')))))
          else (w, Inl (HttpError ''You are not allowed to delete this post'' (Some 401))))"

section \<open>Regular expressions\<close>

text \<open>
  \<open>getCatPosts\<close> puts the category of the request, as it is, between \<^verbatim>\<open>^\<close> and \<^verbatim>\<open>$\<close> and
  compiles the result with the flag \<^verbatim>\<open>i\<close>. The model covers the patterns built from
  ordinary characters, \<^verbatim>\<open>.\<close>, the assertions \<^verbatim>\<open>^\<close> and \<^verbatim>\<open>$\<close>, the quantifiers \<^verbatim>\<open>*\<close>,
  \<^verbatim>\<open>+\<close>, \<^verbatim>\<open>?\<close> (also in their lazy form) and \<^verbatim>\<open>|\<close>. A pattern with a backslash, a
  bracket, a parenthesis or a brace is outside of the model (\<open>Unsupported\<close>). The
  expression is compiled in the handler and evaluated by the store on the category of
  each post; the subjects are stored categories, which contain no line terminator.
\<close>

datatype atom = AChar char | ADot

datatype quant = QOne | QStar | QPlus | QOpt

datatype rterm = TBol | TEol | TAtom atom quant

datatype regexp = Compiled "rterm list list" | SyntaxError | Unsupported

definition unsupported_char :: "char \<Rightarrow> bool" where
  "unsupported_char c = (c \<in> set (CHR 0x5C # ''()[]{}''))"

definition quant_char :: "char \<Rightarrow> bool" where
  "quant_char c = (c \<in> set ''*+?'')"

definition drop_lazy :: "string \<Rightarrow> string" where
  "drop_lazy cs = (case cs of [] \<Rightarrow> [] | c # r \<Rightarrow> if c = CHR ''?'' then r else c # r)"

definition take_quant :: "string \<Rightarrow> quant \<times> string" where
  "take_quant cs =
     (case cs of
        [] \<Rightarrow> (QOne, [])
      | c # r \<Rightarrow>
          if c = CHR ''*'' then (QStar, drop_lazy r)
          else if c = CHR ''+'' then (QPlus, drop_lazy r)
          else if c = CHR ''?'' then (QOpt, drop_lazy r)
          else (QOne, c # r))"

text \<open>
  One alternative of the pattern; \<open>None\<close> is the syntax error "nothing to repeat" (a
  quantifier at the start, after an assertion or after another quantifier).
\<close>

function parse_alt :: "string \<Rightarrow> rterm list option" where
  "parse_alt [] = Some []"
| "parse_alt (c # cs) =
     (if quant_char c then None
      else if c = CHR ''^'' \<or> c = CHR ''$'' then
        (if cs \<noteq> [] \<and> quant_char (hd cs) then None
         else map_option ((#) (if c = CHR ''^'' then TBol else TEol)) (parse_alt cs))
      else
        (case take_quant cs of
           (q, r) \<Rightarrow>
             map_option ((#) (TAtom (if c = CHR ''.'' then ADot else AChar c) q))
               (parse_alt r)))"
  by pat_completeness auto
termination
  by (relation "measure length")
    (auto simp: take_quant_def drop_lazy_def split: list.splits if_splits)

definition RegExp :: "string \<Rightarrow> regexp" where
  "RegExp src =
     (if list_ex unsupported_char src then Unsupported
      else (case those (map parse_alt (split (CHR ''|'') src)) of
              None \<Rightarrow> SyntaxError
            | Some alts \<Rightarrow> Compiled alts))"

text \<open>With the flag \<^verbatim>\<open>i\<close> characters are compared up to letter case.\<close>

definition atom_match :: "atom \<Rightarrow> char \<Rightarrow> bool" where
  "atom_match a c =
     (case a of
        AChar x \<Rightarrow> lower_char x = lower_char c
      | ADot \<Rightarrow> c \<noteq> CHR 0x0A \<and> c \<noteq> CHR 0x0D)"

text \<open>
  \<open>match_here ts b s\<close>: the terms \<open>ts\<close> match a prefix of \<open>s\<close>; \<open>b\<close> tells whether \<open>s\<close>
  starts at the beginning of the subject.
\<close>

fun match_here :: "rterm list \<Rightarrow> bool \<Rightarrow> string \<Rightarrow> bool" where
  "match_here [] b s = True"
| "match_here (TBol # ts) b s = (b \<and> match_here ts b s)"
| "match_here (TEol # ts) b s = (s = [] \<and> match_here ts b s)"
| "match_here (TAtom a QOne # ts) b [] = False"
| "match_here (TAtom a QOne # ts) b (c # s) = (atom_match a c \<and> match_here ts False s)"
| "match_here (TAtom a QOpt # ts) b [] = match_here ts b []"
| "match_here (TAtom a QOpt # ts) b (c # s) =
     (match_here ts b (c # s) \<or> (atom_match a c \<and> match_here ts False s))"
| "match_here (TAtom a QStar # ts) b [] = match_here ts b []"
| "match_here (TAtom a QStar # ts) b (c # s) =
     (match_here ts b (c # s) \<or> (atom_match a c \<and> match_here (TAtom a QStar # ts) False s))"
| "match_here (TAtom a QPlus # ts) b [] = False"
| "match_here (TAtom a QPlus # ts) b (c # s) =
     (atom_match a c \<and> match_here (TAtom a QStar # ts) False s)"

text \<open>A regular expression matches a subject when it matches from some position.\<close>

fun search :: "rterm list list \<Rightarrow> bool \<Rightarrow> string \<Rightarrow> bool" where
  "search alts b [] = list_ex (\<lambda>ts. match_here ts b []) alts"
| "search alts b (c # s) =
     (list_ex (\<lambda>ts. match_here ts b (c # s)) alts \<or> search alts False s)"

definition RegExp_test :: "rterm list list \<Rightarrow> string \<Rightarrow> bool" where
  "RegExp_test alts s = search alts True s"

text \<open>
  Characters without a meaning of their own in a pattern, and the term that the pattern
  has for such a character.
\<close>

definition plain_char :: "char \<Rightarrow> bool" where
  "plain_char c = (\<not> unsupported_char c \<and> \<not> quant_char c \<and> c \<notin> set ''^$.|'')"

abbreviation lit :: "char \<Rightarrow> rterm" where
  "lit x \<equiv> TAtom (AChar x) QOne"

text \<open>
  \<^verbatim>\<open>.sort({updatedAt: -1})\<close> and \<^verbatim>\<open>.populate({path: "creator", select: "name avatar"})\<close>.
\<close>

definition sort_updatedAt_desc :: "post_doc list \<Rightarrow> post_doc list" where
  "sort_updatedAt_desc ps = rev (sort_key updatedAt ps)"

definition populate_creator ::
  "world \<Rightarrow> post_doc list \<Rightarrow> (post_doc \<times> (string \<times> string option) option) list" where
  "populate_creator w ps =
     map (\<lambda>p. (p, map_option (\<lambda>u. (name u, avatar u)) (User_findById (creator p) w))) ps"

text \<open>
  \<open>getCatPosts\<close> reads only. A missing parameter is interpolated as \<^verbatim>\<open>undefined\<close>; a
  pattern that does not compile raises in the handler and ends in its \<^verbatim>\<open>catch\<close> block.
  The result is \<open>None\<close> for a pattern outside of the model.
\<close>

definition getCatPosts :: "request \<Rightarrow> world \<Rightarrow> outcome option" where
  "getCatPosts req w =
     (let category' = (case params req ''category'' of None \<Rightarrow> ''undefined'' | Some c \<Rightarrow> c)
      in case RegExp (''^'' @ category' @ ''$'') of
           Unsupported \<Rightarrow> None
         | SyntaxError \<Rightarrow> Some (Inl (HttpError ''No Post Found'' (Some 422)))
         | Compiled regex \<Rightarrow>
             let found = sort_updatedAt_desc
                           (filter (\<lambda>p. RegExp_test regex (category p)) (postColl w));
                 posts' = populate_creator w found
             in Some (if length posts' = 0
                      then Inl (HttpError ''Database has empty post.'' (Some 404))
                      else Inr (Response 200 (JPosts posts'))))"

section \<open>Example data\<close>

definition lib0 :: lib where
  "lib0 = \<lparr>bcrypt_hash = (\<lambda>p s. s @ ''$'' @ rev p),
          bcrypt_compare = (\<lambda>p h. rev p = tl (dropWhile (\<lambda>c. c \<noteq> CHR ''$'') h)),
          jwt_sign = (\<lambda>i n. ''jwt.'' @ i @ ''.'' @ n),
          toLowerCase = ascii_toLowerCase, trim = ascii_trim\<rparr>"

definition env0 :: env where
  "env0 = \<lparr>uuid = ''u-1'', new_id = ''id1'', now = 10, mv_err = None, salt = ''s''\<rparr>"

text \<open>An error text of \<^verbatim>\<open>fs.unlink\<close> as a POSIX system gives it for a missing file.\<close>

definition enoent :: "string \<Rightarrow> string" where
  "enoent f = ''Error: ENOENT: no such file or directory, unlink '' @ [CHR 0x27]
              @ ''/srv/blog/uploads/'' @ f @ [CHR 0x27]"

definition empty_world :: world where
  "empty_world = \<lparr>userColl = [], postColl = [], uploads = {}, locked = {},
                  unlink_err = enoent, trace = []\<rparr>"

definition anonymous :: identity where
  "anonymous = \<lparr>uid = [], uname = []\<rparr>"

definition login_req :: "string \<Rightarrow> string \<Rightarrow> request" where
  "login_req e p =
     \<lparr>body = [''email'' \<mapsto> e, ''password'' \<mapsto> p], params = Map.empty,
      files = None, user = anonymous\<rparr>"

definition register_req :: "string \<Rightarrow> string \<Rightarrow> string \<Rightarrow> request" where
  "register_req f e p =
     \<lparr>body = [''fullname'' \<mapsto> f, ''email'' \<mapsto> e, ''password'' \<mapsto> p],
      params = Map.empty, files = None, user = anonymous\<rparr>"

definition alice :: user_doc where
  "alice = \<lparr>user_id = ''u1'', name = ''Alice'', email = ''alice@example.com'',
            password = ''s$1terces'', avatar = Some ''a1.png'', posts = 1\<rparr>"

definition bob :: user_doc where
  "bob = \<lparr>user_id = ''u2'', name = ''Bob'', email = ''bob@example.com'',
          password = ''s$2terces'', avatar = None, posts = 0\<rparr>"

definition post1 :: post_doc where
  "post1 = \<lparr>post_id = ''p1'', title = ''Markets'', category = ''Business'',
            description = ''<p>A long text</p>'', thumbnail = ''t1.png'',
            creator = ''u1'', createdAt = 1, updatedAt = 1\<rparr>"

definition world1 :: world where
  "world1 = \<lparr>userColl = [alice, bob], postColl = [post1],
             uploads = {''a1.png'', ''t1.png''}, locked = {}, unlink_err = enoent,
             trace = []\<rparr>"

definition as_alice :: identity where
  "as_alice = \<lparr>uid = ''u1'', uname = ''Alice''\<rparr>"

definition as_bob :: identity where
  "as_bob = \<lparr>uid = ''u2'', uname = ''Bob''\<rparr>"

definition post_form :: "string \<rightharpoonup> string" where
  "post_form = [''title'' \<mapsto> ''Markets today'', ''category'' \<mapsto> ''Business'',
               ''description'' \<mapsto> ''<p>Another text</p>'']"

definition with_thumbnail :: "string \<Rightarrow> nat \<Rightarrow> (string \<rightharpoonup> upload) option" where
  "with_thumbnail n k = Some [''thumbnail'' \<mapsto> \<lparr>file_name = n, file_size = k\<rparr>]"

definition post_req :: "identity \<Rightarrow> (string \<rightharpoonup> upload) option \<Rightarrow> request" where
  "post_req i fs = \<lparr>body = post_form, params = [''id'' \<mapsto> ''p1''], files = fs, user = i\<rparr>"

definition avatar_req :: "nat \<Rightarrow> request" where
  "avatar_req k =
     \<lparr>body = Map.empty, params = Map.empty,
      files = Some [''avatar'' \<mapsto> \<lparr>file_name = ''me.png'', file_size = k\<rparr>],
      user = as_alice\<rparr>"

definition category_req :: "string \<Rightarrow> request" where
  "category_req c =
     \<lparr>body = Map.empty, params = [''category'' \<mapsto> c], files = None, user = anonymous\<rparr>"

text \<open>The world after the owner of \<open>post1\<close> tried to replace its thumbnail by a file that is too big.\<close>

definition world2 :: world where
  "world2 = \<lparr>userColl = [alice, bob], postColl = [post1],
             uploads = {''a1.png''}, locked = {}, unlink_err = enoent,
             trace = [FileUnlinked ''t1.png'']\<rparr>"

text \<open>A request during which the uploaded file cannot be moved to the uploads directory.\<close>

definition mv_error :: string where
  "mv_error = ''Error: ENAMETOOLONG: name too long, open '' @ [CHR 0x27]
              @ ''/srv/blog/uploads/u-1.png'' @ [CHR 0x27]"

definition env_mv_fails :: env where
  "env_mv_fails = env0\<lparr>mv_err := Some mv_error\<rparr>"

text \<open>
  An edit of \<open>post1\<close> whose description is the empty paragraph of the editor (11
  characters).
\<close>

definition empty_form :: "string \<rightharpoonup> string" where
  "empty_form = [''title'' \<mapsto> ''Markets today'', ''category'' \<mapsto> ''Business'',
                ''description'' \<mapsto> ''<p><br></p>'']"

definition empty_edit_req :: "identity \<Rightarrow> (string \<rightharpoonup> upload) option \<Rightarrow> request" where
  "empty_edit_req i fs =
     \<lparr>body = empty_form, params = [''id'' \<mapsto> ''p1''], files = fs, user = i\<rparr>"

text \<open>A registration without a name.\<close>

definition nameless_register_req :: "string \<Rightarrow> string \<Rightarrow> request" where
  "nameless_register_req e p =
     \<lparr>body = [''email'' \<mapsto> e, ''password'' \<mapsto> p], params = Map.empty,
      files = None, user = anonymous\<rparr>"

section \<open>Auxiliary facts\<close>

lemmas example_defs =
  lib0_def env0_def env_mv_fails_def empty_world_def anonymous_def login_req_def
  register_req_def alice_def bob_def post1_def world1_def world2_def as_alice_def as_bob_def
  post_form_def with_thumbnail_def post_req_def avatar_req_def category_req_def
  empty_form_def empty_edit_req_def nameless_register_req_def
  ascii_toLowerCase_def ascii_trim_def is_space_def lower_char_def

lemmas store_defs =
  User_findOne_email_def User_findById_def User_create_def User_findByIdAndUpdate_def
  Post_findById_def Post_create_def Post_findByIdAndUpdate_def Post_findByIdAndDelete_def
  fs_unlink_def file_mv_def unlink_next_def unlink_log_def mv_next_def bump_posts_def

declare bit_length.simps [simp del]

lemma bit_length_le_iff: "bit_length n \<le> k \<longleftrightarrow> n < 2 ^ k"
proof (induction n arbitrary: k rule: bit_length.induct)
  case (1 n)
  show ?case
  proof (cases "n = 0")
    case True
    then show ?thesis by (simp add: bit_length.simps)
  next
    case False
    show ?thesis
    proof (cases k)
      case 0
      with False show ?thesis by (simp add: bit_length.simps [of n])
    next
      case (Suc j)
      have "bit_length n \<le> Suc j \<longleftrightarrow> bit_length (n div 2) \<le> j"
        using False by (simp add: bit_length.simps [of n])
      also have "\<dots> \<longleftrightarrow> n div 2 < 2 ^ j"
        using "1.IH" [OF False] .
      also have "\<dots> \<longleftrightarrow> n < 2 ^ Suc j"
        by auto
      finally show ?thesis using Suc by simp
    qed
  qed
qed

lemma to_double_exact:
  assumes "\<bar>x\<bar> \<le> 2 ^ 53"
  shows "to_double x = x"
proof (cases "bit_length (nat \<bar>x\<bar>) \<le> 53")
  case True
  then show ?thesis by (simp add: to_double_def)
next
  case False
  then have "\<not> nat \<bar>x\<bar> < 2 ^ 53"
    by (simp add: bit_length_le_iff)
  then have "2 ^ 53 \<le> nat \<bar>x\<bar>"
    by (simp add: not_less)
  moreover have "nat \<bar>x\<bar> \<le> 2 ^ 53"
    using assms by (simp add: nat_le_iff)
  ultimately have a: "nat \<bar>x\<bar> = 2 ^ 53"
    by (rule antisym [rotated])
  have "nat \<bar>x\<bar> < 2 ^ 54"
    unfolding a by simp
  then have "bit_length (nat \<bar>x\<bar>) \<le> 54"
    by (simp add: bit_length_le_iff)
  with False have n: "bit_length (nat \<bar>x\<bar>) = 54"
    by simp
  have "sgn x * int (nat \<bar>x\<bar>) = x"
    by (simp add: sgn_if)
  then show ?thesis
    unfolding to_double_def Let_def n by (simp add: a)
qed

lemma js_add_exact:
  assumes "\<bar>a\<bar> \<le> 2 ^ 53" and "\<bar>b\<bar> \<le> 2 ^ 53" and "\<bar>a + b\<bar> \<le> 2 ^ 53"
  shows "js_add a b = a + b"
  using assms by (simp add: js_add_def to_double_exact)

lemma js_add_one: "\<bar>n\<bar> < 2 ^ 53 \<Longrightarrow> js_add n 1 = n + 1"
  by (rule js_add_exact) auto

lemma js_add_minus_one: "\<bar>n\<bar> < 2 ^ 53 \<Longrightarrow> js_add n (- 1) = n - 1"
  using js_add_exact [of n "- 1"] by auto

lemma js_add_at_limit: "js_add (2 ^ 53) 1 = 2 ^ 53"
proof -
  have 1: "to_double (2 ^ 53) = 2 ^ 53" "to_double 1 = 1"
    by (simp_all add: to_double_exact)
  have a: "nat \<bar>2 ^ 53 + 1 :: int\<bar> = 9007199254740993"
    by simp
  have "(9007199254740993 :: nat) < 2 ^ 54" "\<not> (9007199254740993 :: nat) < 2 ^ 53"
    by simp_all
  then have "bit_length 9007199254740993 \<le> 54" "\<not> bit_length 9007199254740993 \<le> 53"
    unfolding bit_length_le_iff by simp_all
  then have n: "bit_length 9007199254740993 = 54"
    by simp
  have q: "(2 :: nat) ^ (54 - 53) = 2"
    by simp
  have m: "(9007199254740993 :: nat) div 2 = 4503599627370496"
    and r: "(9007199254740993 :: nat) mod 2 = 1"
    by simp_all
  have "to_double (2 ^ 53 + 1) = 2 ^ 53"
    unfolding to_double_def Let_def a n q m r by simp
  then show ?thesis
    unfolding js_add_def 1 .
qed

lemma split_not_Nil: "split c s \<noteq> []"
  by (induction s) (auto split: list.splits)

lemma find_append_None: "find P xs = None \<Longrightarrow> find P (xs @ ys) = find P ys"
  by (induction xs) (auto split: if_splits)

lemma isValidCategory_truthy: "isValidCategory c \<Longrightarrow> truthy (Some c)"
  by (auto simp: isValidCategory_def truthy_def)

lemma find_update_first:
  "find P xs = Some x \<Longrightarrow> P (f x) \<Longrightarrow> find P (update_first P f xs) = Some (f x)"
  by (induction xs) (auto split: if_splits)

lemma find_remove_first:
  "distinct (map g xs) \<Longrightarrow> find (\<lambda>x. g x = k) (remove_first (\<lambda>x. g x = k) xs) = None"
proof (induction xs)
  case Nil
  then show ?case by simp
next
  case (Cons x xs)
  show ?case
  proof (cases "g x = k")
    case True
    from Cons.prems have "g x \<notin> g ` set xs" by simp
    with True have "\<forall>y\<in>set xs. g y \<noteq> k" by blast
    then have "find (\<lambda>x. g x = k) xs = None" by (simp add: find_None_iff)
    with True show ?thesis by simp
  next
    case False
    with Cons show ?thesis by simp
  qed
qed

lemma unlink_log_simps:
  "userColl (unlink_log f w) = userColl w"
  "postColl (unlink_log f w) = postColl w"
  "locked (unlink_log f w) = locked w"
  "uploads (unlink_log f w) = (if f \<in> locked w then uploads w else uploads w - {f})"
  "trace (unlink_log f w) =
     trace w @ [if f \<in> uploads w \<and> f \<notin> locked w then FileUnlinked f
                else ConsoleLog (unlink_err w f)]"
  by (auto simp: unlink_log_def fs_unlink_def)

lemma find_Some_P: "find P xs = Some x \<Longrightarrow> P x"
  by (induction xs) (auto split: if_splits)

lemma mv_next_simps:
  "userColl (mv_next ev f w) = userColl w"
  "postColl (mv_next ev f w) = postColl w"
  by (auto simp: mv_next_def file_mv_def split: option.splits)

lemma Post_findByIdAndUpdate_found:
  assumes "Post_findById i w = Some p" and "post_id (f p) = post_id p"
  shows "Post_findByIdAndUpdate i f w =
           (w\<lparr>postColl := update_first (\<lambda>p. post_id p = i) f (postColl w),
              trace := trace w @ [PostUpdated i]\<rparr>, Some (f p))"
    and "Post_findById i (fst (Post_findByIdAndUpdate i f w)) = Some (f p)"
proof -
  show 1: "Post_findByIdAndUpdate i f w =
           (w\<lparr>postColl := update_first (\<lambda>p. post_id p = i) f (postColl w),
              trace := trace w @ [PostUpdated i]\<rparr>, Some (f p))"
    using assms by (simp add: Post_findByIdAndUpdate_def)
  have "post_id p = i"
    using assms(1) find_Some_P [of "\<lambda>p. post_id p = i"] by (simp add: Post_findById_def)
  then show "Post_findById i (fst (Post_findByIdAndUpdate i f w)) = Some (f p)"
    using assms find_update_first [of "\<lambda>p. post_id p = i" "postColl w" p f]
    by (simp add: 1 Post_findById_def)
qed

lemma bump_posts_found:
  assumes "User_findById i w = Some u"
  shows "bump_posts i k w =
           w\<lparr>userColl := update_first (\<lambda>d. user_id d = i) (\<lambda>d. d\<lparr>posts := js_add (posts u) k\<rparr>)
                           (userColl w),
             trace := trace w @ [UserUpdated i]\<rparr>"
    and "User_findById i (bump_posts i k w) = Some (u\<lparr>posts := js_add (posts u) k\<rparr>)"
proof -
  show 1: "bump_posts i k w =
           w\<lparr>userColl := update_first (\<lambda>d. user_id d = i) (\<lambda>d. d\<lparr>posts := js_add (posts u) k\<rparr>)
                           (userColl w),
             trace := trace w @ [UserUpdated i]\<rparr>"
    using assms by (simp add: bump_posts_def User_findByIdAndUpdate_def)
  have "user_id u = i"
    using assms find_Some_P [of "\<lambda>d. user_id d = i"] by (simp add: User_findById_def)
  then show "User_findById i (bump_posts i k w) = Some (u\<lparr>posts := js_add (posts u) k\<rparr>)"
    using assms
      find_update_first [of "\<lambda>d. user_id d = i" "userColl w" u "\<lambda>d. d\<lparr>posts := js_add (posts u) k\<rparr>"]
    by (simp add: 1 User_findById_def)
qed

text \<open>
  For a category of plain characters \<open>getCatPosts\<close> selects the posts whose category is
  equal to it up to the case of ASCII letters.
\<close>

lemma split_no_sep: "c \<notin> set s \<Longrightarrow> split c s = [s]"
  by (induction s) auto

lemma take_quant_no_quant:
  "s \<noteq> [] \<Longrightarrow> \<not> quant_char (hd s) \<Longrightarrow> take_quant s = (QOne, s)"
  by (cases s) (auto simp: take_quant_def quant_char_def)

lemma parse_alt_plain:
  "list_all plain_char s \<Longrightarrow> parse_alt (s @ ''$'') = Some (map lit s @ [TEol])"
proof (induction s)
  case Nil
  show ?case by (simp add: quant_char_def)
next
  case (Cons x s)
  have nq: "\<not> quant_char (hd (s @ ''$''))"
    using Cons.prems by (cases s) (auto simp: plain_char_def quant_char_def)
  have tq: "take_quant (s @ ''$'') = (QOne, s @ ''$'')"
    using nq by (simp add: take_quant_no_quant)
  have px: "\<not> quant_char x" "x \<noteq> CHR ''^''" "x \<noteq> CHR ''$''" "x \<noteq> CHR ''.''"
    using Cons.prems by (auto simp: plain_char_def)
  from Cons have ih: "parse_alt (s @ ''$'') = Some (map lit s @ [TEol])"
    by simp
  show ?case
    using px by (simp add: tq ih)
qed

lemma RegExp_plain:
  assumes "list_all plain_char s"
  shows "RegExp (''^'' @ s @ ''$'') = Compiled [TBol # map lit s @ [TEol]]"
proof -
  have u: "\<not> list_ex unsupported_char (''^'' @ s @ ''$'')"
    using assms by (auto simp: list_ex_iff list_all_iff plain_char_def unsupported_char_def)
  have "CHR ''|'' \<notin> set (''^'' @ s @ ''$'')"
    using assms by (auto simp: list_all_iff plain_char_def)
  then have sp: "split (CHR ''|'') (''^'' @ s @ ''$'') = [''^'' @ s @ ''$'']"
    by (rule split_no_sep)
  have nq: "\<not> quant_char (hd (s @ ''$''))"
    using assms by (cases s) (auto simp: plain_char_def quant_char_def)
  have "parse_alt (''^'' @ s @ ''$'') = Some (TBol # map lit s @ [TEol])"
    using nq parse_alt_plain [OF assms] by (simp add: quant_char_def)
  then show ?thesis
    using u unfolding RegExp_def sp by simp
qed

lemma match_here_lits:
  "match_here (map lit c @ [TEol]) b s \<longleftrightarrow> map lower_char s = map lower_char c"
proof (induction c arbitrary: b s)
  case Nil
  show ?case by auto
next
  case (Cons x c)
  show ?case
    by (cases s) (auto simp: Cons.IH atom_match_def)
qed

lemma search_bol_False: "\<not> search [TBol # ts] False s"
  by (induction s) auto

lemma search_bol: "search [TBol # ts] True s = match_here ts True s"
  by (cases s) (auto simp: search_bol_False)

lemma RegExp_test_plain:
  "RegExp_test [TBol # map lit c @ [TEol]] s \<longleftrightarrow> map lower_char s = map lower_char c"
  by (simp add: RegExp_test_def search_bol match_here_lits)

lemma getCatPosts_plain:
  assumes "params req ''category'' = Some c" and "list_all plain_char c"
  shows "getCatPosts req w =
           Some (let posts' = populate_creator w
                                (sort_updatedAt_desc
                                   (filter (\<lambda>p. map lower_char (category p) = map lower_char c)
                                      (postColl w)))
                 in if posts' = []
                    then Inl (HttpError ''Database has empty post.'' (Some 404))
                    else Inr (Response 200 (JPosts posts')))"
  using assms(1) RegExp_plain [OF assms(2)]
  by (simp add: getCatPosts_def Let_def RegExp_test_plain)

lemma getCatPosts_art:
  "getCatPosts (category_req ''art'') w = getCatPosts (category_req ''Art'') w"
proof -
  have 1: "params (category_req ''art'') ''category'' = Some ''art''"
    and 2: "params (category_req ''Art'') ''category'' = Some ''Art''"
    by (simp_all add: category_req_def)
  have 3: "list_all plain_char ''art''" and 4: "list_all plain_char ''Art''"
    by (simp_all add: plain_char_def unsupported_char_def quant_char_def)
  have 5: "map lower_char ''Art'' = map lower_char ''art''"
    by (simp add: lower_char_def)
  show ?thesis
    unfolding getCatPosts_plain [OF 1 3] getCatPosts_plain [OF 2 4] 5 ..
qed

lemma changeAvatar_oversize:
  assumes "files req = Some fs" and "fs ''avatar'' = Some av"
    and "User_findById (uid (user req)) w = Some u"
    and "file_size av > 500000"
  shows "snd (changeAvatar ev req w) =
           Inl (HttpError ''Profile picture too big. Should be less than 500kb'' None)"
  using assms by (simp add: changeAvatar_def Let_def)

section \<open>Properties of the user handlers\<close>

text \<open>
  C5, as the code has it: when no user is stored under the lowercase form of the email,
  \<open>loginUser\<close> changes nothing and fails with an error whose status is 422 (not 404). The
  message is the one about the unknown account when email and password are both
  supplied, and the one about missing fields otherwise.
\<close>

theorem loginUser_unknown_email:
  assumes "body req ''email'' = Some e"
    and "User_findOne_email (toLowerCase lb e) w = None"
  shows "loginUser lb req w =
           (w, Inl (HttpError
                      (if e = [] \<or> \<not> truthy (body req ''password'')
                       then ''Fill all the fields.''
                       else ''We couldn't find an account linked to this email address.'')
                      (Some 422)))"
  using assms by (simp add: loginUser_def truthy_def)

theorem loginUser_unknown_email_witness:
  "body (login_req ''Nobody@Example.com'' ''secret1'') ''email'' = Some ''Nobody@Example.com''
   \<and> User_findOne_email (toLowerCase lib0 ''Nobody@Example.com'') world1 = None
   \<and> loginUser lib0 (login_req ''Nobody@Example.com'' ''secret1'') world1 =
       (world1, Inl (HttpError ''We couldn't find an account linked to this email address.''
                       (Some 422)))"
proof -
  have b: "body (login_req ''Nobody@Example.com'' ''secret1'') ''email''
             = Some ''Nobody@Example.com''"
    by (simp add: login_req_def)
  have f: "User_findOne_email (toLowerCase lib0 ''Nobody@Example.com'') world1 = None"
    by (simp add: User_findOne_email_def example_defs)
  have p: "truthy (body (login_req ''Nobody@Example.com'' ''secret1'') ''password'')"
    by (simp add: login_req_def truthy_def)
  show ?thesis
    using loginUser_unknown_email [OF b f] b f p by simp
qed

text \<open>
  C5 as stated fails: for an email that no user has, the error of \<open>loginUser\<close> carries the
  status 422, not 404.
\<close>

theorem loginUser_unknown_email_not_404:
  "User_findOne_email (toLowerCase lib0 ''Nobody@Example.com'') world1 = None
   \<and> snd (loginUser lib0 (login_req ''Nobody@Example.com'' ''secret1'') world1) =
       Inl (HttpError ''We couldn't find an account linked to this email address.'' (Some 422))
   \<and> snd (loginUser lib0 (login_req ''Nobody@Example.com'' ''secret1'') world1) \<noteq>
       Inl (HttpError ''We couldn't find an account linked to this email address.'' (Some 404))"
  by (simp add: loginUser_def truthy_def User_findOne_email_def example_defs)

text \<open>
  C6, as the code has it: a registration that supplies a name, an email and a password of
  at least 6 characters after trimming, for an email whose lowercase form no user has,
  succeeds and appends one user document whose email is that lowercase form. After it,
  every registration that supplies a name, an email and a password and whose email is
  the same up to letter case fails with the conflict ``Email already exists.'' of status
  422 and leaves the store as it is: no second document is created.
\<close>

theorem registerUser_twice_conflict:
  assumes n1: "truthy (body req1 ''fullname'')"
    and e1: "body req1 ''email'' = Some e1" and ne1: "e1 \<noteq> []"
    and p1: "body req1 ''password'' = Some p1" and np1: "p1 \<noteq> []"
    and len: "6 \<le> length (trim lb p1)"
    and free: "User_findOne_email (toLowerCase lb e1) w = None"
    and n2: "truthy (body req2 ''fullname'')"
    and e2: "body req2 ''email'' = Some e2" and ne2: "e2 \<noteq> []"
    and p2: "truthy (body req2 ''password'')"
    and same: "toLowerCase lb e1 = toLowerCase lb e2"
  shows "\<exists>u. registerUser lb ev1 req1 w =
               (User_create u w,
                Inr (Response 201
                       (JString (''New User '' @ toLowerCase lb e1 @ '' registered.''))))
           \<and> email u = toLowerCase lb e1
           \<and> userColl (User_create u w) = userColl w @ [u]
           \<and> registerUser lb ev2 req2 (User_create u w) =
               (User_create u w, Inl (HttpError ''Email already exists.'' (Some 422)))"
proof -
  define u where
    "u = \<lparr>user_id = new_id ev1, name = the (body req1 ''fullname''),
          email = toLowerCase lb e1, password = bcrypt_hash lb p1 (salt ev1),
          avatar = None, posts = 0\<rparr>"
  have first: "registerUser lb ev1 req1 w =
                 (User_create u w,
                  Inr (Response 201
                         (JString (''New User '' @ toLowerCase lb e1 @ '' registered.''))))"
    using n1 e1 ne1 p1 np1 len free
    by (simp add: registerUser_def Let_def truthy_def u_def)
  have stored: "email u = toLowerCase lb e1"
    by (simp add: u_def)
  have coll: "userColl (User_create u w) = userColl w @ [u]"
    by (simp add: User_create_def)
  have found: "User_findOne_email (toLowerCase lb e2) (User_create u w) = Some u"
    using free stored unfolding same [symmetric]
    by (simp add: User_findOne_email_def User_create_def find_append_None)
  have second: "registerUser lb ev2 req2 (User_create u w) =
                  (User_create u w, Inl (HttpError ''Email already exists.'' (Some 422)))"
    using n2 e2 ne2 p2 found by (simp add: registerUser_def Let_def truthy_def)
  from first stored coll second show ?thesis by blast
qed

theorem registerUser_twice_conflict_witness:
  "truthy (body (register_req ''Ann'' ''Ann@Example.com'' ''secret1'') ''fullname'')
   \<and> 6 \<le> length (trim lib0 ''secret1'')
   \<and> User_findOne_email (toLowerCase lib0 ''Ann@Example.com'') world1 = None
   \<and> truthy (body (register_req ''Annie'' ''ann@EXAMPLE.com'' ''pw'') ''fullname'')
   \<and> truthy (body (register_req ''Annie'' ''ann@EXAMPLE.com'' ''pw'') ''password'')
   \<and> toLowerCase lib0 ''Ann@Example.com'' = toLowerCase lib0 ''ann@EXAMPLE.com''
   \<and> registerUser lib0 env0 (register_req ''Ann'' ''Ann@Example.com'' ''secret1'') world1 =
       (User_create \<lparr>user_id = ''id1'', name = ''Ann'', email = ''ann@example.com'',
                     password = ''s$1terces'', avatar = None, posts = 0\<rparr> world1,
        Inr (Response 201 (JString ''New User ann@example.com registered.'')))
   \<and> registerUser lib0 env0 (register_req ''Annie'' ''ann@EXAMPLE.com'' ''pw'')
       (User_create \<lparr>user_id = ''id1'', name = ''Ann'', email = ''ann@example.com'',
                     password = ''s$1terces'', avatar = None, posts = 0\<rparr> world1) =
       (User_create \<lparr>user_id = ''id1'', name = ''Ann'', email = ''ann@example.com'',
                     password = ''s$1terces'', avatar = None, posts = 0\<rparr> world1,
        Inl (HttpError ''Email already exists.'' (Some 422)))"
proof -
  let ?r1 = "register_req ''Ann'' ''Ann@Example.com'' ''secret1''"
  let ?r2 = "register_req ''Annie'' ''ann@EXAMPLE.com'' ''pw''"
  let ?u = "\<lparr>user_id = ''id1'', name = ''Ann'', email = ''ann@example.com'',
             password = ''s$1terces'', avatar = None, posts = 0\<rparr>"
  have n1: "truthy (body ?r1 ''fullname'')"
    by (simp add: register_req_def truthy_def)
  have e1: "body ?r1 ''email'' = Some ''Ann@Example.com''"
    by (simp add: register_req_def)
  have ne1: "''Ann@Example.com'' \<noteq> []"
    by simp
  have p1: "body ?r1 ''password'' = Some ''secret1''"
    by (simp add: register_req_def)
  have np1: "''secret1'' \<noteq> []"
    by simp
  have len: "6 \<le> length (trim lib0 ''secret1'')"
    by (simp add: example_defs)
  have free: "User_findOne_email (toLowerCase lib0 ''Ann@Example.com'') world1 = None"
    by (simp add: User_findOne_email_def example_defs)
  have n2: "truthy (body ?r2 ''fullname'')"
    by (simp add: register_req_def truthy_def)
  have e2: "body ?r2 ''email'' = Some ''ann@EXAMPLE.com''"
    by (simp add: register_req_def)
  have ne2: "''ann@EXAMPLE.com'' \<noteq> []"
    by simp
  have p2: "truthy (body ?r2 ''password'')"
    by (simp add: register_req_def truthy_def)
  have same: "toLowerCase lib0 ''Ann@Example.com'' = toLowerCase lib0 ''ann@EXAMPLE.com''"
    by (simp add: example_defs)
  from registerUser_twice_conflict [OF n1 e1 ne1 p1 np1 len free n2 e2 ne2 p2 same,
      of env0 env0]
  obtain u where first: "registerUser lib0 env0 ?r1 world1 =
                 (User_create u world1,
                  Inr (Response 201
                         (JString (''New User '' @ toLowerCase lib0 ''Ann@Example.com''
                                   @ '' registered.''))))"
    and second: "registerUser lib0 env0 ?r2 (User_create u world1) =
                   (User_create u world1, Inl (HttpError ''Email already exists.'' (Some 422)))"
    by blast
  have ev: "fst (registerUser lib0 env0 ?r1 world1) = User_create ?u world1"
    by (simp add: registerUser_def truthy_def User_findOne_email_def Let_def example_defs)
  with first have w: "User_create u world1 = User_create ?u world1"
    by simp
  have msg: "''New User '' @ toLowerCase lib0 ''Ann@Example.com'' @ '' registered.''
             = ''New User ann@example.com registered.''"
    by (simp add: example_defs)
  show ?thesis
    using n1 len free n2 p2 same first second unfolding w msg by simp
qed

text \<open>
  C6 as stated fails: after the registration of \<^verbatim>\<open>Ann@Example.com\<close>, a registration with
  the email \<^verbatim>\<open>ann@EXAMPLE.com\<close> and without a name fails with ``Fill in all fields.'', the
  error for missing input, not with the conflict.
\<close>

theorem registerUser_second_without_name:
  "snd (registerUser lib0 env0 (register_req ''Ann'' ''Ann@Example.com'' ''secret1'') world1)
     = Inr (Response 201 (JString ''New User ann@example.com registered.''))
   \<and> toLowerCase lib0 ''Ann@Example.com'' = toLowerCase lib0 ''ann@EXAMPLE.com''
   \<and> snd (registerUser lib0 env0 (nameless_register_req ''ann@EXAMPLE.com'' ''secret2'')
            (fst (registerUser lib0 env0
                    (register_req ''Ann'' ''Ann@Example.com'' ''secret1'') world1)))
     = Inl (HttpError ''Fill in all fields.'' (Some 422))
   \<and> snd (registerUser lib0 env0 (nameless_register_req ''ann@EXAMPLE.com'' ''secret2'')
            (fst (registerUser lib0 env0
                    (register_req ''Ann'' ''Ann@Example.com'' ''secret1'') world1)))
     \<noteq> Inl (HttpError ''Email already exists.'' (Some 422))"
  by (simp add: registerUser_def truthy_def User_findOne_email_def Let_def example_defs)

section \<open>Properties of the post handlers\<close>

text \<open>
  C1, as the code has it, for a post whose creator is the caller. When the thumbnail file
  of the post is in the uploads directory and can be unlinked, and the caller has a user
  document whose posts counter is below \<open>2 ^ 53\<close> in magnitude, \<open>deletePost\<close> unlinks the
  thumbnail file, then deletes the post document, then writes back the posts counter of
  the caller decreased by exactly 1, and answers 200 with a message that names the post
  identifier; when post identifiers are distinct, the post cannot be found afterwards.
  When the thumbnail file is missing or cannot be unlinked, \<open>deletePost\<close> fails with the
  error of the unlink, which carries no status, and changes nothing.
\<close>

theorem deletePost_owner:
  assumes id: "params req ''id'' = Some postId"
    and post: "Post_findById postId w = Some post"
    and owner: "creator post = uid (user req)"
  shows "(thumbnail post \<in> uploads w \<and> thumbnail post \<notin> locked w
          \<and> User_findById (uid (user req)) w = Some u \<and> \<bar>posts u\<bar> < 2 ^ 53 \<longrightarrow>
            (\<exists>w'. deletePost req w =
                     (w', Inr (Response 200
                                 (JString (''Post '' @ postId @ '' deleted successfully''))))
                \<and> trace w' = trace w @ [FileUnlinked (thumbnail post), PostDeleted postId,
                                          UserUpdated (uid (user req))]
                \<and> uploads w' = uploads w - {thumbnail post}
                \<and> postColl w' = remove_first (\<lambda>p. post_id p = postId) (postColl w)
                \<and> (distinct (map post_id (postColl w)) \<longrightarrow> Post_findById postId w' = None)
                \<and> User_findById (uid (user req)) w' = Some (u\<lparr>posts := posts u - 1\<rparr>)))
         \<and> (thumbnail post \<notin> uploads w \<or> thumbnail post \<in> locked w \<longrightarrow>
              deletePost req w = (w, Inl (HttpError (unlink_err w (thumbnail post)) None)))"
proof (intro conjI impI)
  assume "thumbnail post \<notin> uploads w \<or> thumbnail post \<in> locked w"
  then have "fs_unlink (thumbnail post) w = (w, Some (unlink_err w (thumbnail post)))"
    by (auto simp: fs_unlink_def)
  then show "deletePost req w = (w, Inl (HttpError (unlink_err w (thumbnail post)) None))"
    using id post owner by (simp add: deletePost_def)
next
  assume a: "thumbnail post \<in> uploads w \<and> thumbnail post \<notin> locked w
             \<and> User_findById (uid (user req)) w = Some u \<and> \<bar>posts u\<bar> < 2 ^ 53"
  define w1 where "w1 = w\<lparr>uploads := uploads w - {thumbnail post},
                         trace := trace w @ [FileUnlinked (thumbnail post)]\<rparr>"
  define w2 where "w2 = Post_findByIdAndDelete postId w1"
  define w3 where "w3 = bump_posts (uid (user req)) (- 1) w2"
  have un: "fs_unlink (thumbnail post) w = (w1, None)"
    using a by (simp add: fs_unlink_def w1_def)
  have res: "deletePost req w =
          (w3, Inr (Response 200 (JString (''Post '' @ postId @ '' deleted successfully''))))"
    using id post owner un by (simp add: deletePost_def w2_def w3_def)
  have p1: "Post_findById postId w1 = Some post"
    using post by (simp add: Post_findById_def w1_def)
  have w2: "w2 = w1\<lparr>postColl := remove_first (\<lambda>p. post_id p = postId) (postColl w1),
                    trace := trace w1 @ [PostDeleted postId]\<rparr>"
    using p1 by (simp add: w2_def Post_findByIdAndDelete_def)
  have u2: "User_findById (uid (user req)) w2 = Some u"
    using a by (simp add: User_findById_def w2 w1_def)
  note b = bump_posts_found [OF u2, of "- 1"]
  have tr: "trace w3 = trace w @ [FileUnlinked (thumbnail post), PostDeleted postId,
                                  UserUpdated (uid (user req))]"
    unfolding w3_def b(1) by (simp add: w2 w1_def)
  have up: "uploads w3 = uploads w - {thumbnail post}"
    unfolding w3_def b(1) by (simp add: w2 w1_def)
  have pc: "postColl w3 = remove_first (\<lambda>p. post_id p = postId) (postColl w)"
    unfolding w3_def b(1) by (simp add: w2 w1_def)
  have gone: "distinct (map post_id (postColl w)) \<longrightarrow> Post_findById postId w3 = None"
    by (simp add: Post_findById_def pc find_remove_first)
  have "js_add (posts u) (- 1) = posts u - 1"
    using a by (simp add: js_add_minus_one)
  then have cnt: "User_findById (uid (user req)) w3 = Some (u\<lparr>posts := posts u - 1\<rparr>)"
    using b(2) by (simp add: w3_def)
  from res tr up pc gone cnt
  show "\<exists>w'. deletePost req w =
                (w', Inr (Response 200
                            (JString (''Post '' @ postId @ '' deleted successfully''))))
           \<and> trace w' = trace w @ [FileUnlinked (thumbnail post), PostDeleted postId,
                                     UserUpdated (uid (user req))]
           \<and> uploads w' = uploads w - {thumbnail post}
           \<and> postColl w' = remove_first (\<lambda>p. post_id p = postId) (postColl w)
           \<and> (distinct (map post_id (postColl w)) \<longrightarrow> Post_findById postId w' = None)
           \<and> User_findById (uid (user req)) w' = Some (u\<lparr>posts := posts u - 1\<rparr>)"
    by blast
qed

theorem deletePost_owner_witness:
  "params (post_req as_alice None) ''id'' = Some ''p1''
   \<and> Post_findById ''p1'' world1 = Some post1
   \<and> creator post1 = uid (user (post_req as_alice None))
   \<and> thumbnail post1 \<in> uploads world1 \<and> thumbnail post1 \<notin> locked world1
   \<and> User_findById (uid (user (post_req as_alice None))) world1 = Some alice
   \<and> \<bar>posts alice\<bar> < 2 ^ 53
   \<and> distinct (map post_id (postColl world1))
   \<and> deletePost (post_req as_alice None) world1 =
        (world1\<lparr>userColl := [alice\<lparr>posts := 0\<rparr>, bob], postColl := [],
                uploads := {''a1.png''},
                trace := [FileUnlinked ''t1.png'', PostDeleted ''p1'', UserUpdated ''u1'']\<rparr>,
         Inr (Response 200 (JString ''Post p1 deleted successfully'')))
   \<and> Post_findById ''p1'' (fst (deletePost (post_req as_alice None) world1)) = None
   \<and> User_findById ''u1'' (fst (deletePost (post_req as_alice None) world1))
        = Some (alice\<lparr>posts := posts alice - 1\<rparr>)
   \<and> Post_findById ''p1'' world2 = Some post1
   \<and> thumbnail post1 \<notin> uploads world2
   \<and> deletePost (post_req as_alice None) world2 =
        (world2, Inl (HttpError (unlink_err world2 ''t1.png'') None))"
proof -
  let ?req = "post_req as_alice None"
  let ?w = "world1\<lparr>userColl := [alice\<lparr>posts := 0\<rparr>, bob], postColl := [],
                   uploads := {''a1.png''},
                   trace := [FileUnlinked ''t1.png'', PostDeleted ''p1'', UserUpdated ''u1'']\<rparr>"
  have 1: "params ?req ''id'' = Some ''p1''"
    by (simp add: example_defs)
  have 2: "Post_findById ''p1'' world1 = Some post1"
    by (simp add: example_defs store_defs)
  have 3: "creator post1 = uid (user ?req)"
    by (simp add: example_defs)
  have 4: "thumbnail post1 \<in> uploads world1 \<and> thumbnail post1 \<notin> locked world1"
    by (simp add: example_defs)
  have 5: "User_findById (uid (user ?req)) world1 = Some alice"
    by (simp add: example_defs store_defs)
  have 6: "distinct (map post_id (postColl world1))"
    by (simp add: example_defs)
  have 7: "uid (user ?req) = ''u1''"
    by (simp add: example_defs)
  have 8: "\<bar>posts alice\<bar> < 2 ^ 53"
    by (simp add: example_defs)
  have 9: "Post_findById ''p1'' world2 = Some post1"
    by (simp add: example_defs store_defs)
  have 10: "thumbnail post1 \<notin> uploads world2"
    by (simp add: example_defs)
  have t: "thumbnail post1 = ''t1.png''"
    by (simp add: example_defs)
  have p: "posts alice - 1 = 0"
    by (simp add: example_defs)
  from deletePost_owner [OF 1 2 3, of alice] 4 5 8
  obtain w' where r: "deletePost ?req world1 =
                        (w', Inr (Response 200
                                    (JString (''Post '' @ ''p1'' @ '' deleted successfully''))))"
    and tr: "trace w' = trace world1 @ [FileUnlinked (thumbnail post1), PostDeleted ''p1'',
                                        UserUpdated (uid (user ?req))]"
    and up: "uploads w' = uploads world1 - {thumbnail post1}"
    and pc: "postColl w' = remove_first (\<lambda>p. post_id p = ''p1'') (postColl world1)"
    and g: "distinct (map post_id (postColl world1)) \<longrightarrow> Post_findById ''p1'' w' = None"
    and c: "User_findById (uid (user ?req)) w' = Some (alice\<lparr>posts := posts alice - 1\<rparr>)"
    by blast
  have e: "fst (deletePost ?req world1) = ?w"
    using js_add_minus_one [OF 8] p
    by (simp add: Let_def deletePost_def example_defs store_defs insert_Diff_if)
  with r have w': "w' = ?w"
    by simp
  from deletePost_owner [OF 1 9 3, of alice] 10
  have f: "deletePost ?req world2 =
             (world2, Inl (HttpError (unlink_err world2 (thumbnail post1)) None))"
    by blast
  show ?thesis
    using 1 2 3 4 5 6 8 9 10 r g c f unfolding w' 7 t by simp
qed

text \<open>
  C1 as stated fails: after the owner tried to replace the thumbnail of \<open>post1\<close> by a file
  that is too big, the thumbnail file is gone (C10); \<open>deletePost\<close> by the owner then fails
  with the error of the unlink and deletes nothing.
\<close>

theorem deletePost_owner_missing_file:
  "fst (editPost env0 (post_req as_alice (with_thumbnail ''big.png'' 2000001)) world1) = world2
   \<and> params (post_req as_alice None) ''id'' = Some ''p1''
   \<and> Post_findById ''p1'' world2 = Some post1
   \<and> creator post1 = uid (user (post_req as_alice None))
   \<and> deletePost (post_req as_alice None) world2 =
        (world2, Inl (HttpError (unlink_err world2 ''t1.png'') None))"
  by (simp add: Let_def deletePost_def editPost_def example_defs store_defs truthy_def
      isValidCategory_def insert_Diff_if)

text \<open>
  C2, as the code has it, for a caller who supplies a title, a category of the closed
  set, a description and a thumbnail file of at most 2,000,000 bytes. When moving the
  file to the uploads directory succeeds and the caller has a user document whose posts
  counter is below \<open>2 ^ 53\<close> in magnitude, \<open>createPost\<close> answers 200 with the created post,
  whose creator is the identifier of the caller; the post is appended to the collection
  and the posts counter of the caller is increased by exactly 1. When moving the file
  fails, \<open>createPost\<close> fails with the error of the move, which carries no status, and
  changes nothing.
\<close>

theorem createPost_valid:
  assumes t: "truthy (body req ''title'')"
    and c: "body req ''category'' = Some c" and v: "isValidCategory c"
    and d: "truthy (body req ''description'')"
    and fs: "files req = Some fs" and th: "fs ''thumbnail'' = Some th"
    and sz: "file_size th \<le> 2000000"
  shows "(mv_err ev = None \<and> User_findById (uid (user req)) w = Some u
          \<and> \<bar>posts u\<bar> < 2 ^ 53 \<longrightarrow>
            (\<exists>w' newPost. createPost ev req w = (w', Inr (Response 200 (JPost newPost)))
                \<and> creator newPost = uid (user req)
                \<and> postColl w' = postColl w @ [newPost]
                \<and> User_findById (uid (user req)) w' = Some (u\<lparr>posts := posts u + 1\<rparr>)))
         \<and> (\<forall>e. mv_err ev = Some e \<longrightarrow> createPost ev req w = (w, Inl (HttpError e None)))"
proof (intro conjI impI allI)
  fix e
  assume "mv_err ev = Some e"
  then have "\<And>f. file_mv ev f w = (w, Some e)"
    by (simp add: file_mv_def)
  then show "createPost ev req w = (w, Inl (HttpError e None))"
    using t c v d fs th sz isValidCategory_truthy [OF v]
    by (simp add: createPost_def Let_def)
next
  assume a: "mv_err ev = None \<and> User_findById (uid (user req)) w = Some u
             \<and> \<bar>posts u\<bar> < 2 ^ 53"
  define newFilename where
    "newFilename = uuid ev @ ''.'' @ last (split (CHR ''.'') (file_name th))"
  define newPost where
    "newPost = \<lparr>post_id = new_id ev, title = the (body req ''title''),
                category = the (body req ''category''),
                description = the (body req ''description''),
                thumbnail = newFilename, creator = uid (user req),
                createdAt = now ev, updatedAt = now ev\<rparr>"
  define w1 where "w1 = w\<lparr>uploads := insert newFilename (uploads w),
                         trace := trace w @ [FileMoved newFilename]\<rparr>"
  define w2 where "w2 = Post_create newPost w1"
  define w3 where "w3 = bump_posts (uid (user req)) 1 w2"
  have m: "file_mv ev newFilename w = (w1, None)"
    using a by (simp add: file_mv_def w1_def)
  have res: "createPost ev req w = (w3, Inr (Response 200 (JPost newPost)))"
    using t c v d fs th sz m isValidCategory_truthy [OF v]
    by (simp add: createPost_def Let_def newFilename_def newPost_def w2_def w3_def)
  have u2: "User_findById (uid (user req)) w2 = Some u"
    using a by (simp add: User_findById_def w2_def Post_create_def w1_def)
  note b = bump_posts_found [OF u2, of 1]
  have pc: "postColl w3 = postColl w @ [newPost]"
    unfolding w3_def b(1) by (simp add: w2_def Post_create_def w1_def)
  have "js_add (posts u) 1 = posts u + 1"
    using a by (simp add: js_add_one)
  then have cnt: "User_findById (uid (user req)) w3 = Some (u\<lparr>posts := posts u + 1\<rparr>)"
    using b(2) by (simp add: w3_def)
  have cr: "creator newPost = uid (user req)"
    by (simp add: newPost_def)
  from res cr pc cnt
  show "\<exists>w' newPost. createPost ev req w = (w', Inr (Response 200 (JPost newPost)))
          \<and> creator newPost = uid (user req)
          \<and> postColl w' = postColl w @ [newPost]
          \<and> User_findById (uid (user req)) w' = Some (u\<lparr>posts := posts u + 1\<rparr>)"
    by blast
qed

theorem createPost_valid_witness:
  "truthy (body (post_req as_alice (with_thumbnail ''pic.png'' 2000000)) ''title'')
   \<and> isValidCategory ''Business''
   \<and> truthy (body (post_req as_alice (with_thumbnail ''pic.png'' 2000000)) ''description'')
   \<and> file_size \<lparr>file_name = ''pic.png'', file_size = 2000000\<rparr> \<le> 2000000
   \<and> mv_err env0 = None
   \<and> User_findById ''u1'' world1 = Some alice
   \<and> \<bar>posts alice\<bar> < 2 ^ 53
   \<and> snd (createPost env0 (post_req as_alice (with_thumbnail ''pic.png'' 2000000)) world1) =
        Inr (Response 200
               (JPost \<lparr>post_id = ''id1'', title = ''Markets today'', category = ''Business'',
                       description = ''<p>Another text</p>'', thumbnail = ''u-1.png'',
                       creator = ''u1'', createdAt = 10, updatedAt = 10\<rparr>))
   \<and> User_findById ''u1''
        (fst (createPost env0 (post_req as_alice (with_thumbnail ''pic.png'' 2000000)) world1))
        = Some (alice\<lparr>posts := posts alice + 1\<rparr>)
   \<and> mv_err env_mv_fails = Some mv_error
   \<and> createPost env_mv_fails (post_req as_alice (with_thumbnail ''pic.png'' 2000000)) world1 =
        (world1, Inl (HttpError mv_error None))"
proof -
  let ?req = "post_req as_alice (with_thumbnail ''pic.png'' 2000000)"
  let ?th = "\<lparr>file_name = ''pic.png'', file_size = 2000000\<rparr>"
  have 1: "truthy (body ?req ''title'')"
    by (simp add: example_defs truthy_def)
  have 2: "body ?req ''category'' = Some ''Business''"
    by (simp add: example_defs)
  have 3: "isValidCategory ''Business''"
    by (simp add: isValidCategory_def)
  have 4: "truthy (body ?req ''description'')"
    by (simp add: example_defs truthy_def)
  have 5: "files ?req = Some [''thumbnail'' \<mapsto> ?th]"
    by (simp add: example_defs)
  have 6: "[''thumbnail'' \<mapsto> ?th] ''thumbnail'' = Some ?th"
    by simp
  have 7: "file_size ?th \<le> 2000000"
    by simp
  have 8: "mv_err env0 = None"
    by (simp add: example_defs)
  have i: "uid (user ?req) = ''u1''"
    by (simp add: example_defs)
  have 9: "User_findById (uid (user ?req)) world1 = Some alice"
    by (simp add: example_defs store_defs)
  have 10: "\<bar>posts alice\<bar> < 2 ^ 53"
    by (simp add: example_defs)
  have 11: "mv_err env_mv_fails = Some mv_error"
    by (simp add: example_defs)
  from createPost_valid [OF 1 2 3 4 5 6 7, of env0 world1 alice] 8 9 10
  obtain w' newPost where r: "createPost env0 ?req world1 = (w', Inr (Response 200 (JPost newPost)))"
    and c: "User_findById (uid (user ?req)) w' = Some (alice\<lparr>posts := posts alice + 1\<rparr>)"
    by blast
  have e: "snd (createPost env0 ?req world1) =
        Inr (Response 200
               (JPost \<lparr>post_id = ''id1'', title = ''Markets today'', category = ''Business'',
                       description = ''<p>Another text</p>'', thumbnail = ''u-1.png'',
                       creator = ''u1'', createdAt = 10, updatedAt = 10\<rparr>))"
    by (simp add: Let_def createPost_def example_defs file_mv_def Post_create_def
        truthy_def isValidCategory_def)
  have f: "fst (createPost env0 ?req world1) = w'"
    using r by simp
  from createPost_valid [OF 1 2 3 4 5 6 7, of env_mv_fails world1 alice] 11
  have g: "createPost env_mv_fails ?req world1 = (world1, Inl (HttpError mv_error None))"
    by blast
  show ?thesis
    unfolding f using 1 3 4 7 8 9 10 11 c e g unfolding i by simp
qed

text \<open>
  C2 as stated fails: with all fields valid, \<open>createPost\<close> fails and creates nothing when
  the uploaded file cannot be moved to the uploads directory.
\<close>

theorem createPost_move_fails:
  "truthy (body (post_req as_alice (with_thumbnail ''pic.png'' 1000)) ''title'')
   \<and> body (post_req as_alice (with_thumbnail ''pic.png'' 1000)) ''category'' = Some ''Business''
   \<and> isValidCategory ''Business''
   \<and> truthy (body (post_req as_alice (with_thumbnail ''pic.png'' 1000)) ''description'')
   \<and> User_findById (uid as_alice) world1 = Some alice
   \<and> mv_err env_mv_fails = Some mv_error
   \<and> createPost env_mv_fails (post_req as_alice (with_thumbnail ''pic.png'' 1000)) world1 =
        (world1, Inl (HttpError mv_error None))"
  by (simp add: Let_def createPost_def example_defs store_defs truthy_def isValidCategory_def)

text \<open>
  C3: for an existing post and a caller whose identifier differs from the creator of the
  post, \<open>deletePost\<close> fails with status 401 and returns the world as it was: the post
  document, the files and the counters are unchanged.
\<close>

theorem deletePost_not_owner:
  assumes "params req ''id'' = Some postId"
    and "Post_findById postId w = Some post"
    and "uid (user req) \<noteq> creator post"
  shows "deletePost req w =
           (w, Inl (HttpError ''You are not allowed to delete this post'' (Some 401)))"
  using assms by (auto simp: deletePost_def)

theorem deletePost_not_owner_witness:
  "params (post_req as_bob None) ''id'' = Some ''p1''
   \<and> Post_findById ''p1'' world1 = Some post1
   \<and> uid (user (post_req as_bob None)) \<noteq> creator post1
   \<and> deletePost (post_req as_bob None) world1 =
        (world1, Inl (HttpError ''You are not allowed to delete this post'' (Some 401)))"
proof -
  have 1: "params (post_req as_bob None) ''id'' = Some ''p1''"
    by (simp add: example_defs)
  have 2: "Post_findById ''p1'' world1 = Some post1"
    by (simp add: example_defs store_defs)
  have 3: "uid (user (post_req as_bob None)) \<noteq> creator post1"
    by (simp add: example_defs)
  show ?thesis
    using deletePost_not_owner [OF 1 2 3] 1 2 3 by simp
qed

text \<open>
  C4: for an existing post, a caller whose identifier differs from the creator of the
  post, and a valid title, category and description, \<open>editPost\<close> changes nothing and
  fails with the error ``Couldn't update post.'' of status 400.
\<close>

theorem editPost_not_owner:
  assumes "truthy (body req ''title'')"
    and "body req ''category'' = Some c" and "isValidCategory c"
    and "body req ''description'' = Some d" and "12 \<le> length d"
    and "params req ''id'' = Some postId"
    and "Post_findById postId w = Some oldPost"
    and "uid (user req) \<noteq> creator oldPost"
  shows "editPost ev req w = (w, Inl (HttpError ''Couldn't update post.'' (Some 400)))"
  using assms isValidCategory_truthy [of c]
  by (simp add: editPost_def edit_result_def)

theorem editPost_not_owner_witness:
  "truthy (body (post_req as_bob None) ''title'')
   \<and> body (post_req as_bob None) ''category'' = Some ''Business''
   \<and> isValidCategory ''Business''
   \<and> body (post_req as_bob None) ''description'' = Some ''<p>Another text</p>''
   \<and> 12 \<le> length ''<p>Another text</p>''
   \<and> Post_findById ''p1'' world1 = Some post1
   \<and> uid (user (post_req as_bob None)) \<noteq> creator post1
   \<and> editPost env0 (post_req as_bob None) world1 =
        (world1, Inl (HttpError ''Couldn't update post.'' (Some 400)))"
proof -
  have 1: "truthy (body (post_req as_bob None) ''title'')"
    by (simp add: example_defs truthy_def)
  have 2: "body (post_req as_bob None) ''category'' = Some ''Business''"
    by (simp add: example_defs)
  have 3: "isValidCategory ''Business''"
    by (simp add: isValidCategory_def)
  have 4: "body (post_req as_bob None) ''description'' = Some ''<p>Another text</p>''"
    by (simp add: example_defs)
  have 5: "12 \<le> length ''<p>Another text</p>''"
    by simp
  have 6: "params (post_req as_bob None) ''id'' = Some ''p1''"
    by (simp add: example_defs)
  have 7: "Post_findById ''p1'' world1 = Some post1"
    by (simp add: example_defs store_defs)
  have 8: "uid (user (post_req as_bob None)) \<noteq> creator post1"
    by (simp add: example_defs)
  show ?thesis
    using editPost_not_owner [OF 1 2 3 4 5 6 7 8, of env0] 1 2 3 4 5 7 8 by simp
qed

text \<open>
  C9, as the code has it: when the owner edits a post with a replacement file of at most
  2,000,000 bytes, the stored file name is the part of the uploaded name before its first
  dot, then the generated unique identifier, then a dot and the part of the uploaded name
  after its last dot. The unique identifier follows the base name.
\<close>

theorem editPost_new_thumbnail_name:
  assumes t: "truthy (body req ''title'')"
    and c: "body req ''category'' = Some c" and v: "isValidCategory c"
    and d: "body req ''description'' = Some d" and len: "12 \<le> length d"
    and id: "params req ''id'' = Some postId"
    and old: "Post_findById postId w = Some oldPost"
    and owner: "uid (user req) = creator oldPost"
    and fs: "files req = Some fs" and th: "fs ''thumbnail'' = Some th"
    and sz: "file_size th \<le> 2000000"
  shows "\<exists>w' p. editPost ev req w = (w', Inr (Response 200 (JPost p)))
           \<and> Post_findById postId w' = Some p
           \<and> thumbnail p = hd (split (CHR ''.'') (file_name th)) @ uuid ev @ ''.''
                            @ last (split (CHR ''.'') (file_name th))"
proof -
  define newFilename where
    "newFilename = hd (split (CHR ''.'') (file_name th)) @ uuid ev @ ''.''
                   @ last (split (CHR ''.'') (file_name th))"
  define f :: "post_doc \<Rightarrow> post_doc" where
    "f = (\<lambda>p. p\<lparr>title := the (body req ''title''), category := the (body req ''category''),
               description := d, thumbnail := newFilename, updatedAt := now ev\<rparr>)"
  define w2 where "w2 = mv_next ev newFilename (unlink_log (thumbnail oldPost) w)"
  have o2: "Post_findById postId w2 = Some oldPost"
    using old by (simp add: Post_findById_def w2_def mv_next_simps unlink_log_simps)
  have pid: "post_id (f oldPost) = post_id oldPost"
    by (simp add: f_def)
  note u = Post_findByIdAndUpdate_found [of postId w2 oldPost f, OF o2 pid]
  have res: "editPost ev req w = edit_result (Post_findByIdAndUpdate postId f w2)"
    using t c v d len id old owner fs th sz isValidCategory_truthy [OF v]
    by (simp add: editPost_def Let_def newFilename_def f_def w2_def)
  have "editPost ev req w =
          (fst (Post_findByIdAndUpdate postId f w2), Inr (Response 200 (JPost (f oldPost))))"
    by (simp add: res u(1) edit_result_def)
  moreover have "thumbnail (f oldPost) = newFilename"
    by (simp add: f_def)
  ultimately show ?thesis
    using u(2) unfolding newFilename_def by blast
qed

theorem editPost_new_thumbnail_name_witness:
  "Post_findById ''p1'' world1 = Some post1
   \<and> uid (user (post_req as_alice (with_thumbnail ''my.pic.png'' 1000))) = creator post1
   \<and> file_size \<lparr>file_name = ''my.pic.png'', file_size = 1000\<rparr> \<le> 2000000
   \<and> map_option thumbnail
        (Post_findById ''p1''
           (fst (editPost env0 (post_req as_alice (with_thumbnail ''my.pic.png'' 1000)) world1)))
        = Some ''myu-1.png''"
proof -
  let ?req = "post_req as_alice (with_thumbnail ''my.pic.png'' 1000)"
  let ?th = "\<lparr>file_name = ''my.pic.png'', file_size = 1000\<rparr>"
  have 1: "truthy (body ?req ''title'')"
    by (simp add: example_defs truthy_def)
  have 2: "body ?req ''category'' = Some ''Business''"
    by (simp add: example_defs)
  have 3: "isValidCategory ''Business''"
    by (simp add: isValidCategory_def)
  have 4: "body ?req ''description'' = Some ''<p>Another text</p>''"
    by (simp add: example_defs)
  have 5: "12 \<le> length ''<p>Another text</p>''"
    by simp
  have 6: "params ?req ''id'' = Some ''p1''"
    by (simp add: example_defs)
  have 7: "Post_findById ''p1'' world1 = Some post1"
    by (simp add: example_defs store_defs)
  have 8: "uid (user ?req) = creator post1"
    by (simp add: example_defs)
  have 9: "files ?req = Some [''thumbnail'' \<mapsto> ?th]"
    by (simp add: example_defs)
  have 10: "[''thumbnail'' \<mapsto> ?th] ''thumbnail'' = Some ?th"
    by simp
  have 11: "file_size ?th \<le> 2000000"
    by simp
  from editPost_new_thumbnail_name [OF 1 2 3 4 5 6 7 8 9 10 11, of env0]
  obtain w' p where r: "editPost env0 ?req world1 = (w', Inr (Response 200 (JPost p)))"
    and f: "Post_findById ''p1'' w' = Some p"
    and n: "thumbnail p = hd (split (CHR ''.'') (file_name ?th)) @ uuid env0 @ ''.''
                          @ last (split (CHR ''.'') (file_name ?th))"
    by blast
  have "thumbnail p = ''myu-1.png''"
    unfolding n by (simp add: example_defs)
  moreover have "fst (editPost env0 ?req world1) = w'"
    using r by simp
  ultimately show ?thesis
    using 7 8 11 f by simp
qed

text \<open>
  C9 as stated fails: for the upload \<^verbatim>\<open>pic.png\<close> and the unique identifier \<^verbatim>\<open>u-1\<close> the
  stored name is \<^verbatim>\<open>picu-1.png\<close>; the identifier is not in front of the base name.
\<close>

theorem editPost_new_thumbnail_name_not_prefixed:
  "map_option thumbnail
     (Post_findById ''p1''
        (fst (editPost env0 (post_req as_alice (with_thumbnail ''pic.png'' 1000)) world1)))
     = Some ''picu-1.png''
   \<and> ''picu-1.png'' \<noteq> uuid env0 @ ''pic'' @ ''.png''"
  by (simp add: Let_def editPost_def edit_result_def example_defs store_defs truthy_def
      isValidCategory_def)

text \<open>
  C10, as the code has it: when the owner edits an existing post with a title, a category
  and a description that pass the validation, the old thumbnail file is in the uploads
  directory and can be unlinked, and the replacement file has more than 2,000,000 bytes,
  the request fails with the error about the size (which carries no status) and the post
  document is as before, so it still names the old thumbnail; but the old thumbnail file
  is no longer in the uploads directory: it was unlinked before the size was checked.
\<close>

theorem editPost_oversize_after_unlink:
  assumes "truthy (body req ''title'')"
    and "body req ''category'' = Some c" and "isValidCategory c"
    and "body req ''description'' = Some d" and "12 \<le> length d"
    and "params req ''id'' = Some postId"
    and "Post_findById postId w = Some oldPost"
    and "uid (user req) = creator oldPost"
    and "files req = Some fs" and "fs ''thumbnail'' = Some th"
    and "file_size th > 2000000"
    and "thumbnail oldPost \<in> uploads w" and "thumbnail oldPost \<notin> locked w"
  shows "\<exists>w'. editPost ev req w =
                (w', Inl (HttpError ''Thumbnail too big. Should be less than 2mb.'' None))
           \<and> postColl w' = postColl w
           \<and> Post_findById postId w' = Some oldPost
           \<and> uploads w' = uploads w - {thumbnail oldPost}
           \<and> thumbnail oldPost \<notin> uploads w'
           \<and> trace w' = trace w @ [FileUnlinked (thumbnail oldPost)]"
proof -
  have "editPost ev req w =
          (unlink_log (thumbnail oldPost) w,
           Inl (HttpError ''Thumbnail too big. Should be less than 2mb.'' None))"
    using assms isValidCategory_truthy [of c]
    by (simp add: editPost_def Let_def)
  moreover have "Post_findById postId (unlink_log (thumbnail oldPost) w) = Some oldPost"
    using assms(7) by (simp add: Post_findById_def unlink_log_simps)
  ultimately show ?thesis
    using assms(12,13) by (simp add: unlink_log_simps)
qed

theorem editPost_oversize_after_unlink_witness:
  "Post_findById ''p1'' world1 = Some post1
   \<and> uid (user (post_req as_alice (with_thumbnail ''big.png'' 2000001))) = creator post1
   \<and> file_size \<lparr>file_name = ''big.png'', file_size = 2000001\<rparr> > 2000000
   \<and> thumbnail post1 \<in> uploads world1 \<and> thumbnail post1 \<notin> locked world1
   \<and> editPost env0 (post_req as_alice (with_thumbnail ''big.png'' 2000001)) world1 =
        (world2, Inl (HttpError ''Thumbnail too big. Should be less than 2mb.'' None))
   \<and> Post_findById ''p1'' world2 = Some post1
   \<and> thumbnail post1 \<notin> uploads world2
   \<and> trace world2 = trace world1 @ [FileUnlinked (thumbnail post1)]"
proof -
  let ?req = "post_req as_alice (with_thumbnail ''big.png'' 2000001)"
  let ?th = "\<lparr>file_name = ''big.png'', file_size = 2000001\<rparr>"
  have 1: "truthy (body ?req ''title'')"
    by (simp add: example_defs truthy_def)
  have 2: "body ?req ''category'' = Some ''Business''"
    by (simp add: example_defs)
  have 3: "isValidCategory ''Business''"
    by (simp add: isValidCategory_def)
  have 4: "body ?req ''description'' = Some ''<p>Another text</p>''"
    by (simp add: example_defs)
  have 5: "12 \<le> length ''<p>Another text</p>''"
    by simp
  have 6: "params ?req ''id'' = Some ''p1''"
    by (simp add: example_defs)
  have 7: "Post_findById ''p1'' world1 = Some post1"
    by (simp add: example_defs store_defs)
  have 8: "uid (user ?req) = creator post1"
    by (simp add: example_defs)
  have 9: "files ?req = Some [''thumbnail'' \<mapsto> ?th]"
    by (simp add: example_defs)
  have 10: "[''thumbnail'' \<mapsto> ?th] ''thumbnail'' = Some ?th"
    by simp
  have 11: "file_size ?th > 2000000"
    by simp
  have 12: "thumbnail post1 \<in> uploads world1"
    by (simp add: example_defs)
  have 13: "thumbnail post1 \<notin> locked world1"
    by (simp add: example_defs)
  from editPost_oversize_after_unlink [OF 1 2 3 4 5 6 7 8 9 10 11 12 13, of env0]
  obtain w' where r: "editPost env0 ?req world1 =
                        (w', Inl (HttpError ''Thumbnail too big. Should be less than 2mb.'' None))"
    and p: "Post_findById ''p1'' w' = Some post1"
    and u: "thumbnail post1 \<notin> uploads w'"
    and t: "trace w' = trace world1 @ [FileUnlinked (thumbnail post1)]"
    by blast
  have "fst (editPost env0 ?req world1) = world2"
    by (simp add: Let_def editPost_def example_defs store_defs truthy_def isValidCategory_def
        insert_Diff_if)
  with r have "w' = world2" by simp
  with r p u t 7 8 11 12 13 show ?thesis by simp
qed

text \<open>
  C10 as stated fails: when the owner of \<open>post1\<close> sends a replacement file of 2,000,001
  bytes together with a description of 11 characters, \<open>editPost\<close> fails at the validation
  of the fields, and the old thumbnail file is still in the uploads directory.
\<close>

theorem editPost_oversize_invalid_fields:
  "Post_findById ''p1'' world1 = Some post1
   \<and> uid (user (empty_edit_req as_alice (with_thumbnail ''big.png'' 2000001))) = creator post1
   \<and> file_size \<lparr>file_name = ''big.png'', file_size = 2000001\<rparr> > 2000000
   \<and> editPost env0 (empty_edit_req as_alice (with_thumbnail ''big.png'' 2000001)) world1 =
        (world1, Inl (HttpError ''Fill in all fields.'' (Some 422)))
   \<and> thumbnail post1 \<in> uploads world1"
  by (simp add: Let_def editPost_def example_defs store_defs truthy_def)

text \<open>
  C7 fails on the code: \<open>getCatPosts\<close> uses the category of the request as a regular
  expression. For the category \<^verbatim>\<open>.*\<close> it returns a post whose category is Business,
  which is not equal to \<^verbatim>\<open>.*\<close> up to letter case. (For categories of plain characters
  the match is exact up to letter case, see \<open>getCatPosts_plain\<close>.)
\<close>

theorem getCatPosts_wildcard:
  "getCatPosts (category_req ''.*'') world1 =
     Some (Inr (Response 200 (JPosts [(post1, Some (''Alice'', Some ''a1.png''))])))
   \<and> toLowerCase lib0 (category post1) \<noteq> toLowerCase lib0 ''.*''"
  by (simp add: Let_def getCatPosts_def RegExp_def unsupported_char_def quant_char_def take_quant_def
      drop_lazy_def RegExp_test_def atom_match_def
      sort_updatedAt_desc_def populate_creator_def example_defs store_defs)

text \<open>
  C8 fails on the code: for an avatar of 500,001 bytes \<open>changeAvatar\<close> fails with an error
  that carries no status (the 422 is passed to \<^verbatim>\<open>next\<close>, not to the error), after the
  old avatar file has been unlinked.
\<close>

theorem changeAvatar_oversize_no_status:
  "file_size \<lparr>file_name = ''me.png'', file_size = 500001\<rparr> > 500000
   \<and> changeAvatar env0 (avatar_req 500001) world1 =
        (world1\<lparr>uploads := {''t1.png''}, trace := [FileUnlinked ''a1.png'']\<rparr>,
         Inl (HttpError ''Profile picture too big. Should be less than 500kb'' None))
   \<and> status (HttpError ''Profile picture too big. Should be less than 500kb'' None)
        \<noteq> Some 422"
  by (simp add: Let_def changeAvatar_def example_defs store_defs truthy_def insert_Diff_if)

end
